theory Spec2Isabelle
  imports Main "HOL-Library.Sublist"
begin

section \<open>Schema registry (models.py)\<close>

text \<open>
  The pydantic classes of \<^verbatim>\<open>models.py\<close> as records. A field typed
  \<^verbatim>\<open>Optional[str]\<close> is a \<^typ>\<open>string option\<close>, Python's \<^verbatim>\<open>None\<close> being
  \<^const>\<open>None\<close>; \<^verbatim>\<open>int\<close> is the unbounded \<^typ>\<open>int\<close>. Strings are byte
  lists (a code point outside ASCII is its UTF-8 bytes). Several classes share field
  names, so selectors are written qualified (\<open>Scene.characters\<close>, \<open>SceneOutput.characters\<close>).
\<close>

record Scene =
  characters :: "string option"
  environment :: "string option"
  timing_of_day :: "string option"
  scene_duration :: "string option"
  scene_goal :: "string option"
  user_recommendation :: "string option"

text \<open>\<^verbatim>\<open>Scene()\<close>: every field takes its declared default \<^verbatim>\<open>None\<close>.\<close>

definition Scene_default :: Scene where
  "Scene_default = \<lparr> Scene.characters = None, Scene.environment = None,
     Scene.timing_of_day = None, Scene.scene_duration = None, Scene.scene_goal = None,
     Scene.user_recommendation = None \<rparr>"

record AdStoryboardRequest =
  product_name :: "string option"
  product_description :: "string option"
  target_audience :: "string option"
  selling_point :: "string option"
  key_message :: "string option"
  duration_of_ad :: "string option"
  tone :: "string option"
  purpose :: "string option"
  country :: "string option"
  number_of_scenes :: "int option"
  scenes :: "Scene list option"

record AdDetails =
  product_name :: string
  product_description :: string
  target_audience :: string
  selling_point :: string
  key_message :: string
  duration_of_ad :: string
  tone :: string
  purpose :: string
  country :: string
  number_of_scenes :: int

text \<open>
  \<^verbatim>\<open>SceneOutput\<close> declares exactly these ten fields; it has no
  \<^verbatim>\<open>user_recommendation\<close>.
\<close>

record SceneOutput =
  scene_number :: int
  characters :: string
  environment :: string
  timing_of_day :: string
  scene_duration :: string
  scene_goal :: string
  visuals :: string
  camera_work :: string
  sound_design :: string
  transition :: string

record CharacterDetails =
  name :: string
  appearance :: string
  clothing :: string
  expression :: string

record TextToImagePrompt =
  scene_number :: int
  characters :: "CharacterDetails list"
  action :: string
  environment_location :: string
  environment_lighting :: string
  environment_details :: string
  style_type :: string
  style_technique :: string
  style_reference :: string

record ImageToVideoPrompt =
  scene_number :: int
  characters :: "CharacterDetails list"
  action :: string
  environment_location :: string
  environment_lighting :: string
  environment_details :: string
  style_type :: string
  style_technique :: string
  style_reference :: string

subsection \<open>Validation of a parsed JSON object against a class\<close>

text \<open>
  \<^verbatim>\<open>PydanticOutputParser.parse\<close> reads a JSON object out of the model's text and
  validates it against the class. Reading the JSON and converting one JSON value to a
  field's type belong to the libraries, so they are parameters: \<open>json_loads\<close> gives the
  object as a dictionary from keys to values of some type \<open>'v\<close>, and \<open>to_str\<close>,
  \<open>to_int\<close>, \<open>to_characters\<close> convert a value or reject it. What \<^verbatim>\<open>models.py\<close>
  itself declares is which fields are required and which carry a default: a field declared
  \<^verbatim>\<open>name: T\<close> must be present, a field declared \<^verbatim>\<open>name: T = d\<close> takes
  \<open>d\<close> when its key is absent.
\<close>

definition required_field :: "('v \<Rightarrow> 'a option) \<Rightarrow> (string \<rightharpoonup> 'v) \<Rightarrow> string \<Rightarrow> 'a option" where
  "required_field conv obj key = (case obj key of None \<Rightarrow> None | Some v \<Rightarrow> conv v)"

definition default_field :: "('v \<Rightarrow> 'a option) \<Rightarrow> (string \<rightharpoonup> 'v) \<Rightarrow> string \<Rightarrow> 'a \<Rightarrow> 'a option" where
  "default_field conv obj key d = (case obj key of None \<Rightarrow> Some d | Some v \<Rightarrow> conv v)"

record 'v converters =
  to_str :: "'v \<Rightarrow> string option"
  to_int :: "'v \<Rightarrow> int option"
  to_characters :: "'v \<Rightarrow> CharacterDetails list option"

definition TextToImagePrompt_validate ::
  "'v converters \<Rightarrow> (string \<rightharpoonup> 'v) \<Rightarrow> TextToImagePrompt option" where
  "TextToImagePrompt_validate c obj =
     Option.bind (required_field (to_int c) obj ''scene_number'') (\<lambda>f1.
     Option.bind (required_field (to_characters c) obj ''characters'') (\<lambda>f2.
     Option.bind (required_field (to_str c) obj ''action'') (\<lambda>f3.
     Option.bind (required_field (to_str c) obj ''environment_location'') (\<lambda>f4.
     Option.bind (required_field (to_str c) obj ''environment_lighting'') (\<lambda>f5.
     Option.bind (required_field (to_str c) obj ''environment_details'') (\<lambda>f6.
     Option.bind (default_field (to_str c) obj ''style_type'' ''Photorealistic CGI'') (\<lambda>f7.
     Option.bind (required_field (to_str c) obj ''style_technique'') (\<lambda>f8.
     Option.bind (default_field (to_str c) obj ''style_reference'' ''Gregory Crewdson'') (\<lambda>f9.
     Some \<lparr> TextToImagePrompt.scene_number = f1,
            TextToImagePrompt.characters = f2,
            TextToImagePrompt.action = f3,
            TextToImagePrompt.environment_location = f4,
            TextToImagePrompt.environment_lighting = f5,
            TextToImagePrompt.environment_details = f6,
            TextToImagePrompt.style_type = f7,
            TextToImagePrompt.style_technique = f8,
            TextToImagePrompt.style_reference = f9 \<rparr>)))))))))"

definition ImageToVideoPrompt_validate ::
  "'v converters \<Rightarrow> (string \<rightharpoonup> 'v) \<Rightarrow> ImageToVideoPrompt option" where
  "ImageToVideoPrompt_validate c obj =
     Option.bind (required_field (to_int c) obj ''scene_number'') (\<lambda>f1.
     Option.bind (required_field (to_characters c) obj ''characters'') (\<lambda>f2.
     Option.bind (required_field (to_str c) obj ''action'') (\<lambda>f3.
     Option.bind (required_field (to_str c) obj ''environment_location'') (\<lambda>f4.
     Option.bind (required_field (to_str c) obj ''environment_lighting'') (\<lambda>f5.
     Option.bind (required_field (to_str c) obj ''environment_details'') (\<lambda>f6.
     Option.bind (default_field (to_str c) obj ''style_type'' ''Photorealistic CGI'') (\<lambda>f7.
     Option.bind (required_field (to_str c) obj ''style_technique'') (\<lambda>f8.
     Option.bind (default_field (to_str c) obj ''style_reference'' ''Gregory Crewdson'') (\<lambda>f9.
     Some \<lparr> ImageToVideoPrompt.scene_number = f1,
            ImageToVideoPrompt.characters = f2,
            ImageToVideoPrompt.action = f3,
            ImageToVideoPrompt.environment_location = f4,
            ImageToVideoPrompt.environment_lighting = f5,
            ImageToVideoPrompt.environment_details = f6,
            ImageToVideoPrompt.style_type = f7,
            ImageToVideoPrompt.style_technique = f8,
            ImageToVideoPrompt.style_reference = f9 \<rparr>)))))))))"

text \<open>
  The parser object built in the constructors, \<^verbatim>\<open>PydanticOutputParser(pydantic_object=C)\<close>:
  its \<^verbatim>\<open>parse\<close> (\<^const>\<open>None\<close> where the library raises) and the text of its
  \<^verbatim>\<open>get_format_instructions()\<close>.
\<close>

record 'a PydanticOutputParser =
  parse :: "string \<Rightarrow> 'a option"
  get_format_instructions :: string

definition pydantic_parse ::
  "(string \<Rightarrow> (string \<rightharpoonup> 'v) option) \<Rightarrow> ((string \<rightharpoonup> 'v) \<Rightarrow> 'a option) \<Rightarrow> string \<Rightarrow> 'a option" where
  "pydantic_parse json_loads validate response_text =
     (case json_loads response_text of None \<Rightarrow> None | Some obj \<Rightarrow> validate obj)"

section \<open>Python values in text\<close>

text \<open>\<^verbatim>\<open>str(n)\<close> for an integer: decimal digits, a minus sign when negative.\<close>

definition digit_char :: "nat \<Rightarrow> char" where
  "digit_char d = ''0123456789'' ! d"

fun str_nat :: "nat \<Rightarrow> string" where
  "str_nat n = (if n < 10 then [digit_char n] else str_nat (n div 10) @ [digit_char (n mod 10)])"

definition str_int :: "int \<Rightarrow> string" where
  "str_int i = (if i < 0 then CHR ''-'' # str_nat (nat (- i)) else str_nat (nat i))"

text \<open>An \<^verbatim>\<open>Optional\<close> value inside an f-string: \<^verbatim>\<open>None\<close> prints as \<open>None\<close>.\<close>

definition str_of_optional :: "string option \<Rightarrow> string" where
  "str_of_optional v = (case v of None \<Rightarrow> ''None'' | Some s \<Rightarrow> s)"

definition str_of_optional_int :: "int option \<Rightarrow> string" where
  "str_of_optional_int v = (case v of None \<Rightarrow> ''None'' | Some i \<Rightarrow> str_int i)"

text \<open>Truthiness of an optional string: \<^verbatim>\<open>None\<close> and the empty string are false.\<close>

definition truthy :: "string option \<Rightarrow> bool" where
  "truthy v = (case v of None \<Rightarrow> False | Some s \<Rightarrow> s \<noteq> [])"

text \<open>\<^verbatim>\<open>v or d\<close> for an optional string \<open>v\<close> and a string \<open>d\<close>.\<close>

definition py_or :: "string option \<Rightarrow> string \<Rightarrow> string" where
  "py_or v d = (case v of None \<Rightarrow> d | Some s \<Rightarrow> if s = [] then d else s)"

text \<open>\<^verbatim>\<open>sep.join(parts)\<close>.\<close>

fun join_str :: "string \<Rightarrow> string list \<Rightarrow> string" where
  "join_str sep [] = []"
| "join_str sep [x] = x"
| "join_str sep (x # y # ys) = x @ sep @ join_str sep (y # ys)"

text \<open>
  \<^verbatim>\<open>xs[i]\<close> on a list: a negative index counts from the end, an index out of
  range raises \<^verbatim>\<open>IndexError\<close>.
\<close>

datatype error = CompletionError | ResponseTextError | OutputParserException | IndexError

definition list_getitem :: "'a list \<Rightarrow> int \<Rightarrow> error + 'a" where
  "list_getitem xs i =
     (if 0 \<le> i \<and> i < int (length xs) then Inr (xs ! nat i)
      else if i < 0 \<and> - int (length xs) \<le> i then Inr (xs ! nat (int (length xs) + i))
      else Inl IndexError)"

section \<open>The text-completion capability\<close>

text \<open>
  \<^verbatim>\<open>self.model.generate_content(prompt)\<close> is a call to an external service. The
  state threaded through the generators is the list of prompts sent so far, oldest first,
  so the number of invocations a call makes is the growth of that list. The service
  returns a response or fails (\<^const>\<open>Inl\<close>, the exception it raises), and what it does
  may depend on everything sent before: it is any function of the history and the prompt.
  A response is known here by its \<^verbatim>\<open>.text\<close>, and reading that is a second step that
  can raise by itself: a response is the text it gives, or the exception the read raises.
\<close>

type_synonym response = "error + string"

type_synonym completion = "string list \<Rightarrow> string \<Rightarrow> error + response"

definition generate_content ::
  "completion \<Rightarrow> string \<Rightarrow> string list \<Rightarrow> (error + response) \<times> string list" where
  "generate_content model prompt sent = (model sent prompt, sent @ [prompt])"

text \<open>
  The expression \<^verbatim>\<open>parser.parse(response.text)\<close>: the read of the text may raise,
  and so may the parser on the text read.
\<close>

definition parse_response_text :: "'a PydanticOutputParser \<Rightarrow> response \<Rightarrow> error + 'a" where
  "parse_response_text parser response =
     (case response of
        Inl e \<Rightarrow> Inl e
      | Inr response_text \<Rightarrow>
          (case parse parser response_text of
             None \<Rightarrow> Inl OutputParserException
           | Some parsed \<Rightarrow> Inr parsed))"

section \<open>Prompt texts\<close>

text \<open>
  Each f-string of the generators, piece by piece in source order: a literal per source
  line, and one list element per interpolated expression.
\<close>

text \<open>
  The inner f-string of the \<^verbatim>\<open>', '.join([...])\<close> in
  \<^verbatim>\<open>_generate_single_img2vid_prompt\<close> (scene_generator.py, line 364).
\<close>

definition character_summary :: "CharacterDetails \<Rightarrow> string" where
  \<open>character_summary char = concat [
     ''Character Name: '', CharacterDetails.name char,
     '', Appearance: '', CharacterDetails.appearance char,
     '', Clothing: '', CharacterDetails.clothing char,
     '', Expression: '', CharacterDetails.expression char
   ]\<close>

text \<open>
  \<^verbatim>\<open>getattr(scene, "user_recommendation", None)\<close> on a \<^verbatim>\<open>SceneOutput\<close>: the
  class declares no such field, a parsed instance carries none, and the lookup gives the
  default \<^verbatim>\<open>None\<close>.
\<close>

definition SceneOutput_getattr_user_recommendation :: "SceneOutput \<Rightarrow> string option" where
  "SceneOutput_getattr_user_recommendation scene = None"

text \<open>
  The f-string bound to \<^verbatim>\<open>prompt\<close> in \<^verbatim>\<open>generate_ad_details\<close>
  (ad_details_generator.py, line 26).
\<close>

definition ad_details_prompt :: "string \<Rightarrow> AdStoryboardRequest \<Rightarrow> string" where
  \<open>ad_details_prompt format_instructions request = concat [
        ''\<newline>'',
        ''        Based on the provided advertisement information, generate comprehensive ad details.\<newline>'',
        ''        Fill in any missing information based on the context and marketing best practices.\<newline>'',
        ''        \<newline>'',
        ''        '',
        format_instructions,
        ''\<newline>'',
        ''        \<newline>'',
        ''        Input information:\<newline>'',
        ''        - Product Name: '',
        py_or (AdStoryboardRequest.product_name request) ''Not specified'',
        ''\<newline>'',
        ''        - Product Description: '',
        py_or (AdStoryboardRequest.product_description request) ''Not specified'',
        ''\<newline>'',
        ''        - Target Audience: '',
        py_or (AdStoryboardRequest.target_audience request) ''Not specified'',
        ''\<newline>'',
        ''        - Selling Point: '',
        py_or (AdStoryboardRequest.selling_point request) ''Not specified'',
        ''\<newline>'',
        ''        - Key Message: '',
        py_or (AdStoryboardRequest.key_message request) ''Not specified'',
        ''\<newline>'',
        ''        - Duration of Ad: '',
        py_or (AdStoryboardRequest.duration_of_ad request) ''Not specified'',
        ''\<newline>'',
        ''        - Tone: '',
        py_or (AdStoryboardRequest.tone request) ''Not specified'',
        ''\<newline>'',
        ''        - Purpose: '',
        py_or (AdStoryboardRequest.purpose request) ''Not specified'',
        ''\<newline>'',
        ''        - Country: '',
        py_or (AdStoryboardRequest.country request) ''Not specified'',
        ''\<newline>'',
        ''        - Number of Scenes: '',
        str_of_optional_int (AdStoryboardRequest.number_of_scenes request),
        ''\<newline>'',
        ''        \<newline>'',
        ''        Guidelines:\<newline>'',
        ''        1. If a product name is not provided, create a unique and memorable name based on the product description.\<newline>'',
        ''        2. If product description is not provided, create a comprehensive description of what the product is and its benefits.\<newline>'',
        ''        3. If target audience is not specified, determine the most appropriate target audience based on the product.\<newline>'',
        ''        4. If selling point is not specified, identify the most compelling unique value proposition.\<newline>'',
        ''        5. If key message is not specified, craft a resonant core message aligned with the selling point.\<newline>'',
        ''        6. If duration is not specified, suggest an appropriate length based on industry standards.\<newline>'',
        ''        7. If tone is not specified, recommend a tone that matches the product and target audience.\<newline>'',
        ''        8. If purpose is not specified, determine whether it's for brand awareness, product launch, etc.\<newline>'',
        ''        9. If country is not specified, use "International" or "Global".\<newline>'',
        ''\<newline>'',
        ''        For all responses, be specific, creative, and marketing-focused.\<newline>'',
        ''        ''
      ]\<close>

text \<open>
  The f-string bound to \<^verbatim>\<open>retry_prompt\<close> in \<^verbatim>\<open>generate_ad_details\<close>
  (ad_details_generator.py, line 66).
\<close>

definition ad_details_retry_prompt :: "string \<Rightarrow> AdStoryboardRequest \<Rightarrow> string" where
  \<open>ad_details_retry_prompt prompt request = concat [
        ''\<newline>'',
        ''            '',
        prompt,
        ''\<newline>'',
        ''            \<newline>'',
        ''            Your previous response couldn't be parsed correctly. Please ensure you structure your response \<newline>'',
        ''            in a valid JSON format following the exact structure below:\<newline>'',
        ''            \<newline>'',
        ''            ```json\<newline>'',
        ''            {\<newline>'',
        ''                "product_name": "Product Name",\<newline>'',
        ''                "product_description": "Comprehensive product description",\<newline>'',
        ''                "target_audience": "Specific target demographic",\<newline>'',
        ''                "selling_point": "Main unique value proposition",\<newline>'',
        ''                "key_message": "Core message for the ad",\<newline>'',
        ''                "duration_of_ad": "Duration in seconds/minutes",\<newline>'',
        ''                "tone": "Emotional tone of the ad",\<newline>'',
        ''                "purpose": "Purpose of the advertisement",\<newline>'',
        ''                "country": "Target market",\<newline>'',
        ''                "number_of_scenes": '',
        str_of_optional_int (AdStoryboardRequest.number_of_scenes request),
        ''\<newline>'',
        ''            }\<newline>'',
        ''            ```\<newline>'',
        ''            \<newline>'',
        ''            Provide only this JSON structure in your response, without any additional text.\<newline>'',
        ''            ''
      ]\<close>

text \<open>
  The variable \<^verbatim>\<open>priority_instructions\<close> of \<^verbatim>\<open>_generate_single_scene\<close> (scene_generator.py, line 58):
  empty unless the recommendation is truthy, then the f-string of the \<^verbatim>\<open>if\<close> branch.
\<close>

definition single_scene_priority_instructions :: "Scene \<Rightarrow> string" where
  \<open>single_scene_priority_instructions input_scene =
     (if truthy (Scene.user_recommendation input_scene) then concat [
        ''\<newline>'',
        ''        CRITICAL USER SCENE DESCRIPTION - MUST INCLUDE VERBATIM:\<newline>'',
        ''        '',
        str_of_optional (Scene.user_recommendation input_scene),
        ''\<newline>'',
        ''\<newline>'',
        ''        STRICT RULES:\<newline>'',
        ''        1. ALL elements below must align with this description\<newline>'',
        ''        2. NEVER contradict or omit any details from it\<newline>'',
        ''        3. Only add technical details (camera/sound) that support this vision\<newline>'',
        ''        4. Preserve all:\<newline>'',
        ''        - Character actions \<newline>'',
        ''        - Dialogue \<newline>'',
        ''        - Key visuals \<newline>'',
        ''            ''
      ] else [])\<close>

text \<open>
  The f-string bound to \<^verbatim>\<open>prompt\<close> in \<^verbatim>\<open>_generate_single_scene\<close>
  (scene_generator.py, line 74).
\<close>

definition single_scene_prompt :: "string \<Rightarrow> int \<Rightarrow> Scene \<Rightarrow> AdDetails \<Rightarrow> string" where
  \<open>single_scene_prompt format_instructions scene_no input_scene ad_details = concat [
        ''\<newline>'',
        ''        Generate a detailed scene for an advertisement storyboard based on the provided information.\<newline>'',
        ''        \<newline>'',
        ''        \<newline>'',
        ''        Ad Details:\<newline>'',
        ''        - Product Name: '',
        AdDetails.product_name ad_details,
        ''\<newline>'',
        ''        - Product Description: '',
        AdDetails.product_description ad_details,
        ''\<newline>'',
        ''        - Target Audience: '',
        AdDetails.target_audience ad_details,
        ''\<newline>'',
        ''        - Selling Point: '',
        AdDetails.selling_point ad_details,
        ''\<newline>'',
        ''        - Key Message: '',
        AdDetails.key_message ad_details,
        ''\<newline>'',
        ''        - Duration of Ad: '',
        AdDetails.duration_of_ad ad_details,
        ''\<newline>'',
        ''        - Tone: '',
        AdDetails.tone ad_details,
        ''\<newline>'',
        ''        - Purpose: '',
        AdDetails.purpose ad_details,
        ''\<newline>'',
        ''        - Country/Target Market: '',
        AdDetails.country ad_details,
        ''\<newline>'',
        ''        \<newline>'',
        ''        Input Scene Details (Scene '',
        str_int scene_no,
        ''):\<newline>'',
        ''        - Characters: '',
        py_or (Scene.characters input_scene) ''Not specified'',
        ''\<newline>'',
        ''        - Environment: '',
        py_or (Scene.environment input_scene) ''Not specified'',
        ''\<newline>'',
        ''        - Time of Day: '',
        py_or (Scene.timing_of_day input_scene) ''Not specified'',
        ''\<newline>'',
        ''        - Scene Duration: '',
        py_or (Scene.scene_duration input_scene) ''Not specified'',
        ''\<newline>'',
        ''        - Scene Goal: '',
        py_or (Scene.scene_goal input_scene) ''Not specified'',
        ''\<newline>'',
        ''        - User Recommendations: '',
        py_or (Scene.user_recommendation input_scene) ''Not specified (follow normal generation)'',
        ''\<newline>'',
        ''        \<newline>'',
        ''        '',
        single_scene_priority_instructions input_scene,
        ''\<newline>'',
        ''\<newline>'',
        ''        this is the format isntructions\<newline>'',
        ''        '',
        format_instructions,
        ''\<newline>'',
        ''\<newline>'',
        ''        Generation Rules:\<newline>'',
        ''        1. IF USER RECOMMENDATIONS EXIST:\<newline>'',
        ''        - Implement them EXACTLY as written\<newline>'',
        ''        - All other fields must support and align with them\<newline>'',
        ''        - Do not add interpretations or modifications\<newline>'',
        ''        2. IF NO USER RECOMMENDATIONS:\<newline>'',
        ''        - Generate comprehensive scene details following marketing best practices\<newline>'',
        ''        - Ensure alignment with ad details and product goals\<newline>'',
        ''\<newline>'',
        ''        Guidelines for scene creation:\<newline>'',
        ''        1. If characters are not specified, create appropriate characters for the target audience and the target market.\<newline>'',
        ''        2. If environment is not specified, create a suitable setting based on the product and audience.\<newline>'',
        ''        3. If time of day is not specified, select an appropriate time that enhances the scene.\<newline>'',
        ''        4. If scene duration is not specified, suggest an appropriate duration based on the scene's importance and the duration of the ad.\<newline>'',
        ''        5. If scene goal is not specified, determine a goal that supports the overall ad purpose.\<newline>'',
        ''        6. Create detailed descriptions for each of these required output components:\<newline>'',
        ''           - Visual elements (environment details, character appearances, actions)\<newline>'',
        ''           - Camera work (angles, movements, focus points)\<newline>'',
        ''           - Sound design (music, effects, dialogue/narration)\<newline>'',
        ''           - Transition to the next scene\<newline>'',
        ''        7. Each scene should clearly contribute to the overall ad narrative and selling points.\<newline>'',
        ''        8. The scene must clearly mention the Key Message: '',
        AdDetails.key_message ad_details,
        ''\<newline>'',
        ''        \<newline>'',
        ''        Be creative, specific, and focused on marketing effectiveness.\<newline>'',
        ''        ''
      ]\<close>

text \<open>
  The f-string bound to \<^verbatim>\<open>retry_prompt\<close> in \<^verbatim>\<open>_generate_single_scene\<close>
  (scene_generator.py, line 136).
\<close>

definition single_scene_retry_prompt :: "string \<Rightarrow> int \<Rightarrow> string" where
  \<open>single_scene_retry_prompt prompt scene_no = concat [
        ''\<newline>'',
        ''            '',
        prompt,
        ''\<newline>'',
        ''            \<newline>'',
        ''            Your previous response couldn't be parsed correctly. Please ensure you structure your response \<newline>'',
        ''            in a valid JSON format following the exact structure below:\<newline>'',
        ''            \<newline>'',
        ''            ```json\<newline>'',
        ''            {\<newline>'',
        ''                "scene_number": '',
        str_int scene_no,
        '',\<newline>'',
        ''                "characters": "Detailed character descriptions",\<newline>'',
        ''                "environment": "Detailed environment description",\<newline>'',
        ''                "timing_of_day": "Specific time of day",\<newline>'',
        ''                "scene_duration": "Duration in seconds",\<newline>'',
        ''                "scene_goal": "Specific goal for this scene",\<newline>'',
        ''                "visuals": "Detailed visual elements description",\<newline>'',
        ''                "camera_work": "Camera angles and movements",\<newline>'',
        ''                "sound_design": "Music, effects, and dialogue",\<newline>'',
        ''                "transition": "Transition to the next scene"\<newline>'',
        ''            }\<newline>'',
        ''            ```\<newline>'',
        ''            \<newline>'',
        ''            Provide only this JSON structure in your response, without any additional text.\<newline>'',
        ''            ''
      ]\<close>

text \<open>
  The variable \<^verbatim>\<open>priority_instructions\<close> of \<^verbatim>\<open>_generate_single_txt2img_prompt\<close> (scene_generator.py, line 182):
  empty unless the recommendation is truthy, then the f-string of the \<^verbatim>\<open>if\<close> branch.
\<close>

definition single_txt2img_priority_instructions :: "SceneOutput \<Rightarrow> string" where
  \<open>single_txt2img_priority_instructions scene =
     (let user_rec = SceneOutput_getattr_user_recommendation scene
      in if truthy user_rec then concat [
        ''\<newline>'',
        ''            USER VISUAL INSTRUCTIONS (MUST FOLLOW EXACTLY):\<newline>'',
        ''            '',
        str_of_optional user_rec,
        ''\<newline>'',
        ''\<newline>'',
        ''            RULES:\<newline>'',
        ''            1. These visual descriptions take PRECEDENCE over all generated content\<newline>'',
        ''            2. Translate them DIRECTLY into the image prompt without modification\<newline>'',
        ''            3. Ensure all prompt sections align with these instructions\<newline>'',
        ''            ''
      ] else [])\<close>

text \<open>
  The f-string bound to \<^verbatim>\<open>prompt\<close> in \<^verbatim>\<open>_generate_single_txt2img_prompt\<close>
  (scene_generator.py, line 194).
\<close>

definition single_txt2img_prompt :: "string \<Rightarrow> SceneOutput \<Rightarrow> string" where
  \<open>single_txt2img_prompt format_instructions scene = concat [
        ''\<newline>'',
        ''\<newline>'',
        ''        Create a detailed text-to-image prompt for Scene '',
        str_int (SceneOutput.scene_number scene),
        '' following this EXACT format:\<newline>'',
        ''        '',
        format_instructions,
        ''\<newline>'',
        ''\<newline>'',
        ''        TEXT-TO-IMAGE PROMPT FOR SCENE '',
        str_int (SceneOutput.scene_number scene),
        '':\<newline>'',
        ''        CHARACTERS:\<newline>'',
        ''        [For each character in the scene]\<newline>'',
        ''        - Character Name: [Character Name]\<newline>'',
        ''        - Appearance: [age, gender, distinctive physical features]\<newline>'',
        ''        - Clothing: [detailed outfit description + accessories]\<newline>'',
        ''        - Expression: [specific emotion + facial details]\<newline>'',
        ''\<newline>'',
        ''        ACTION: \<newline>'',
        ''        - [Precise single-moment action using active verbs]\<newline>'',
        ''        - *Example:* "Right hand gripping sword hilt while left arm shields face"\<newline>'',
        ''\<newline>'',
        ''        ENVIRONMENT:\<newline>'',
        ''        - Location: [specific setting + key objects]\<newline>'',
        ''        - Lighting: [time of day + light quality]\<newline>'',
        ''        - Details: [notable atmospheric elements]\<newline>'',
        ''\<newline>'',
        ''        STYLE:\<newline>'',
        ''        - Type: Photorealistic CGI(MUST USE THIS EXACTLY)\<newline>'',
        ''        - Technique: [specific rendering technique like "tilt-shift depth of field"]\<newline>'',
        ''        - Reference:Gregory Crewdson (MUST USE THIS EXACTLY)\<newline>'',
        ''\<newline>'',
        ''\<newline>'',
        ''        ---\<newline>'',
        ''        \<newline>'',
        ''\<newline>'',
        ''        \<newline>'',
        ''        Scene Details to Incorporate:\<newline>'',
        ''        - Characters: '',
        SceneOutput.characters scene,
        ''\<newline>'',
        ''        - Environment: '',
        SceneOutput.environment scene,
        ''\<newline>'',
        ''        - Time of Day: '',
        SceneOutput.timing_of_day scene,
        ''\<newline>'',
        ''        - Visuals: '',
        SceneOutput.visuals scene,
        ''\<newline>'',
        ''        - Camera Work: '',
        SceneOutput.camera_work scene,
        ''\<newline>'',
        ''        \<newline>'',
        ''        '',
        single_txt2img_priority_instructions scene,
        ''\<newline>'',
        ''\<newline>'',
        ''        STRICT RULES:\<newline>'',
        ''        1. NEVER merge categories - keep CHARACTERS/ACTION/ENVIRONMENT/STYLE strictly separated\<newline>'',
        ''        2. The prompt must describe a SINGLE frozen moment (no sequential actions)\<newline>'',
        ''        3. Prioritize atomic details (e.g. "frayed red shoelace on left boot")\<newline>'',
        ''        4. If user instructions exist, implement them exactly as provided\<newline>'',
        ''        5. Use active voice and specific visual descriptors\<newline>'',
        ''        6. For scenes with multiple characters, include ALL characters with separate Appearance, Clothing, and Expression fields\<newline>'',
        ''        7. Format each character's details on separate lines as shown in the CHARACTER section\<newline>'',
        ''        ''
      ]\<close>

text \<open>
  The f-string bound to \<^verbatim>\<open>retry_prompt\<close> in \<^verbatim>\<open>_generate_single_txt2img_prompt\<close>
  (scene_generator.py, line 256).
\<close>

definition single_txt2img_retry_prompt :: "string \<Rightarrow> SceneOutput \<Rightarrow> string" where
  \<open>single_txt2img_retry_prompt prompt scene = concat [
        ''\<newline>'',
        ''                '',
        prompt,
        ''\<newline>'',
        ''                \<newline>'',
        ''                Your previous response couldn't be parsed correctly. Please ensure you structure your response \<newline>'',
        ''                in a valid JSON format following the exact structure below:\<newline>'',
        ''                \<newline>'',
        ''                ```json\<newline>'',
        ''                {\<newline>'',
        ''                    "scene_number": '',
        str_int (SceneOutput.scene_number scene),
        '',\<newline>'',
        ''                    "characters": [\<newline>'',
        ''                        {\<newline>'',
        ''                            "name": "Character Name",\<newline>'',
        ''                            "appearance": "Detailed appearance description",\<newline>'',
        ''                            "clothing": "Detailed clothing description",\<newline>'',
        ''                            "expression": "Specific facial expression"\<newline>'',
        ''                        }\<newline>'',
        ''                    ],\<newline>'',
        ''                    "action": "Precise single-moment action",\<newline>'',
        ''                    "environment_location": "Specific setting description",\<newline>'',
        ''                    "environment_lighting": "Detailed lighting description",\<newline>'',
        ''                    "environment_details": "Notable environmental elements",\<newline>'',
        ''                    "style_type": "Photorealistic CGI",\<newline>'',
        ''                    "style_technique": "Specific rendering technique",\<newline>'',
        ''                    "style_reference": "Gregory Crewdson"\<newline>'',
        ''                }\<newline>'',
        ''            Provide only this JSON structure in your response, without any additional text.\<newline>'',
        ''            ''
      ]\<close>

text \<open>
  The variable \<^verbatim>\<open>priority_instructions\<close> of \<^verbatim>\<open>_generate_single_img2vid_prompt\<close> (scene_generator.py, line 310):
  empty unless the recommendation is truthy, then the f-string of the \<^verbatim>\<open>if\<close> branch.
\<close>

definition single_img2vid_priority_instructions :: "SceneOutput \<Rightarrow> string" where
  \<open>single_img2vid_priority_instructions scene =
     (let user_rec = SceneOutput_getattr_user_recommendation scene
      in if truthy user_rec then concat [
        ''\<newline>'',
        ''            USER VISUAL INSTRUCTIONS (MUST FOLLOW EXACTLY):\<newline>'',
        ''            '',
        str_of_optional user_rec,
        ''\<newline>'',
        ''            \<newline>'',
        ''            RULES:\<newline>'',
        ''            1. These visual descriptions take PRECEDENCE over all generated content\<newline>'',
        ''            2. Translate them DIRECTLY into the video prompt without modification\<newline>'',
        ''            3. Ensure all prompt sections align with these instructions\<newline>'',
        ''            ''
      ] else [])\<close>

text \<open>
  The f-string bound to \<^verbatim>\<open>prompt\<close> in \<^verbatim>\<open>_generate_single_img2vid_prompt\<close>
  (scene_generator.py, line 322).
\<close>

definition single_img2vid_prompt :: "string \<Rightarrow> SceneOutput \<Rightarrow> TextToImagePrompt \<Rightarrow> string" where
  \<open>single_img2vid_prompt format_instructions scene txt2img_prompt = concat [
        ''\<newline>'',
        ''        Create a detailed image-to-video prompt for Scene '',
        str_int (SceneOutput.scene_number scene),
        '' following this EXACT format:\<newline>'',
        ''        '',
        format_instructions,
        ''\<newline>'',
        ''        IMAGE-TO-VIDEO PROMPT FOR SCENE '',
        str_int (SceneOutput.scene_number scene),
        '':\<newline>'',
        ''        CHARACTER:\<newline>'',
        ''`       [For each character in the scene]\<newline>'',
        ''        - Character Name: [Character Name]\<newline>'',
        ''        - Appearance: [age, gender, distinctive physical features]\<newline>'',
        ''        - Clothing: [detailed outfit description + accessories]\<newline>'',
        ''        - Expression: [specific emotion + facial details]`\<newline>'',
        ''\<newline>'',
        ''        ACTION: \<newline>'',
        ''        - Timed Action: [precise 0.5s-3s action with timing markers]\<newline>'',
        ''        - Object Interaction: [specific items being manipulated]\<newline>'',
        ''        - Motion FX: [required effects like "smear frames" or "impact blur"]\<newline>'',
        ''\<newline>'',
        ''        ENVIRONMENT:\<newline>'',
        ''        - FG: [Interactive foreground elements with parallax details]\<newline>'',
        ''        - MG: [Midground setting + specific camera movement]\<newline>'',
        ''        - BG: [Atmospheric background + depth effects]\<newline>'',
        ''        - Lighting: [dynamic lighting changes if any]\<newline>'',
        ''\<newline>'',
        ''        STYLE:\<newline>'',
        ''        - Type: Photorealistic CGI (MUST USE THIS EXACTLY)\<newline>'',
        ''        - Technique: [specific rendering technique like "motion blur + smear frames"]\<newline>'',
        ''        - Reference: Gregory Crewdson (MUST USE THIS EXACTLY)\<newline>'',
        ''        - FPS: [required frame rate, typically 24 or 30]\<newline>'',
        ''        - Camera: [specific camera movement and lens details]\<newline>'',
        ''        - Negative Prompts: [elements to avoid in generation]\<newline>'',
        ''\<newline>'',
        ''        ---\<newline>'',
        ''        \<newline>'',
        ''        \<newline>'',
        ''        \<newline>'',
        ''        BASE SCENE DETAILS:\<newline>'',
        ''        - Characters: '',
        SceneOutput.characters scene,
        ''\<newline>'',
        ''        - Environment: '',
        SceneOutput.environment scene,
        ''\<newline>'',
        ''        - Time of Day: '',
        SceneOutput.timing_of_day scene,
        ''\<newline>'',
        ''        - Visuals: '',
        SceneOutput.visuals scene,
        ''\<newline>'',
        ''        - Camera Work: '',
        SceneOutput.camera_work scene,
        ''\<newline>'',
        ''        \<newline>'',
        ''        TEXT-TO-IMAGE PROMPT TO ANIMATE:\<newline>'',
        ''        - Characters: '',
        join_str '', '' (map character_summary (TextToImagePrompt.characters txt2img_prompt)),
        ''\<newline>'',
        ''        - Action: '',
        TextToImagePrompt.action txt2img_prompt,
        ''\<newline>'',
        ''        - Environment: '',
        TextToImagePrompt.environment_location txt2img_prompt,
        '', '',
        TextToImagePrompt.environment_lighting txt2img_prompt,
        ''\<newline>'',
        ''        - Style: '',
        TextToImagePrompt.style_type txt2img_prompt,
        '', '',
        TextToImagePrompt.style_technique txt2img_prompt,
        ''\<newline>'',
        ''        \<newline>'',
        ''        '',
        single_img2vid_priority_instructions scene,
        ''\<newline>'',
        ''        WAN2.1 STRICT RULES:\<newline>'',
        ''        1. Time ALL actions (e.g. "1.2s sword draw from scabbard")\<newline>'',
        ''        2. Specify hair/cloth physics (e.g. "left pigtail swings 30'',
        [CHR 0xC2, CHR 0xB0],
        '' right on impact")\<newline>'',
        ''        3. Use anime motion terms: "smear", "impact frame", "stretch frame"\<newline>'',
        ''        4. Camera MUST move (no static shots) - specify movement type\<newline>'',
        ''        5. Include parallax and layered depth in environment\<newline>'',
        ''        6. Use exact durations for all actions and transitions\<newline>'',
        ''        7. Each prompt must represent a SINGLE high-impact motion sequence\<newline>'',
        ''        8. Specify at least 3 keyframes in the action description\<newline>'',
        ''        9. For scenes with multiple characters, include ALL characters with separate Appearance, Clothing Physics, Expression, and Base Pose fields\<newline>'',
        ''        10. Format each character's details on separate lines as shown in the CHARACTER section\<newline>'',
        ''        ''
      ]\<close>

text \<open>
  The f-string bound to \<^verbatim>\<open>retry_prompt\<close> in \<^verbatim>\<open>_generate_single_img2vid_prompt\<close>
  (scene_generator.py, line 394).
\<close>

definition single_img2vid_retry_prompt :: "string \<Rightarrow> SceneOutput \<Rightarrow> string" where
  \<open>single_img2vid_retry_prompt prompt scene = concat [
        ''\<newline>'',
        ''            '',
        prompt,
        ''\<newline>'',
        ''        \<newline>'',
        ''            Your previous response couldn't be parsed correctly. Please ensure you structure your response \<newline>'',
        ''            in a valid JSON format following the exact structure below:\<newline>'',
        ''            \<newline>'',
        ''            ```json\<newline>'',
        ''            {\<newline>'',
        ''                "scene_number": '',
        str_int (SceneOutput.scene_number scene),
        '',\<newline>'',
        ''                "characters": [\<newline>'',
        ''                    {\<newline>'',
        ''                        "name": "Character Name",\<newline>'',
        ''                        "appearance": "1girl/1boy, age, body type with hair motion details",\<newline>'',
        ''                        "clothing": "Clothing with physics description",\<newline>'',
        ''                        "expression": "Expression with timing details",\<newline>'',
        ''                        "base_pose": "Starting pose before action"\<newline>'',
        ''                    }\<newline>'',
        ''                ],\<newline>'',
        ''                "action": "Timed action with object interaction and motion FX",\<newline>'',
        ''                "environment_location": "FG/MG/BG with parallax details",\<newline>'',
        ''                "environment_lighting": "Dynamic lighting description",\<newline>'',
        ''                "environment_details": "Layered environment specifics",\<newline>'',
        ''                "style_type": "Photorealistic CGI",\<newline>'',
        ''                "style_technique": "Specific animation technique",\<newline>'',
        ''                "style_reference": "Gregory Crewdson"\<newline>'',
        ''            }\<newline>'',
        ''    Provide only this JSON structure in your response, without any additional text.\<newline>'',
        ''    ''
      ]\<close>

section \<open>Ad details stage (ad_details_generator.py)\<close>

text \<open>
  \<^verbatim>\<open>AdDetailsGenerator.generate_ad_details\<close>. Only the first completion call is
  outside the \<^verbatim>\<open>try\<close>: an exception it raises leaves the function. The read of
  \<^verbatim>\<open>response.text\<close> and the parse are inside, so \<^verbatim>\<open>except Exception\<close> catches
  a failure of either and sends the retry prompt. In the handler nothing is caught: an
  exception of the second call, of the read of its text or of its parse leaves the function.
\<close>

definition generate_ad_details ::
  "completion \<Rightarrow> AdDetails PydanticOutputParser \<Rightarrow> AdStoryboardRequest \<Rightarrow> string list
     \<Rightarrow> (error + AdDetails) \<times> string list" where
  "generate_ad_details model output_parser request sent =
     (let format_instructions = get_format_instructions output_parser;
          prompt = ad_details_prompt format_instructions request
      in case generate_content model prompt sent of
           (Inl e, sent1) \<Rightarrow> (Inl e, sent1)
         | (Inr response, sent1) \<Rightarrow>
             (case parse_response_text output_parser response of
                Inr details \<Rightarrow> (Inr details, sent1)
              | Inl e \<Rightarrow>
                  (let retry_prompt = ad_details_retry_prompt prompt request
                   in case generate_content model retry_prompt sent1 of
                        (Inl e', sent2) \<Rightarrow> (Inl e', sent2)
                      | (Inr retry_response, sent2) \<Rightarrow>
                          (case parse_response_text output_parser retry_response of
                             Inr details \<Rightarrow> (Inr details, sent2)
                           | Inl e' \<Rightarrow> (Inl e', sent2)))))"

section \<open>Scene expansion stage (scene_generator.py)\<close>

text \<open>
  \<^verbatim>\<open>SceneGenerator._generate_single_scene\<close>. The \<^verbatim>\<open>try\<close> holds the read of
  \<^verbatim>\<open>response.text\<close> and the parse, and returns the parsed record as it is; the
  handler only builds the retry prompt, and the retry call, the read of its text and its
  parse follow the \<^verbatim>\<open>try\<close> statement, uncaught. The parameter
  \<^verbatim>\<open>scene_number\<close> is written \<open>scene_no\<close>, the name being a field selector here.
\<close>

definition generate_single_scene ::
  "completion \<Rightarrow> SceneOutput PydanticOutputParser \<Rightarrow> int \<Rightarrow> Scene \<Rightarrow> AdDetails \<Rightarrow> string list
     \<Rightarrow> (error + SceneOutput) \<times> string list" where
  "generate_single_scene model scene_output_parser scene_no input_scene ad_details sent =
     (let format_instructions = get_format_instructions scene_output_parser;
          prompt = single_scene_prompt format_instructions scene_no input_scene ad_details
      in case generate_content model prompt sent of
           (Inl e, sent1) \<Rightarrow> (Inl e, sent1)
         | (Inr response, sent1) \<Rightarrow>
             (case parse_response_text scene_output_parser response of
                Inr scene_output \<Rightarrow> (Inr scene_output, sent1)
              | Inl e \<Rightarrow>
                  (let retry_prompt = single_scene_retry_prompt prompt scene_no
                   in case generate_content model retry_prompt sent1 of
                        (Inl e', sent2) \<Rightarrow> (Inl e', sent2)
                      | (Inr retry_response, sent2) \<Rightarrow>
                          (case parse_response_text scene_output_parser retry_response of
                             Inr scene_output \<Rightarrow> (Inr scene_output, sent2)
                           | Inl e' \<Rightarrow> (Inl e', sent2)))))"

text \<open>
  The loop of \<^verbatim>\<open>generate_scenes\<close> over \<^verbatim>\<open>range(1, num_scenes + 1)\<close>, as a
  recursion over the indices still to visit, with the list \<^verbatim>\<open>scenes_output\<close>
  built so far. An exception inside the body leaves the loop and the function.
\<close>

definition select_input_scene :: "Scene list \<Rightarrow> int \<Rightarrow> error + Scene" where
  "select_input_scene input_scenes i =
     (if i \<le> int (length input_scenes) then list_getitem input_scenes (i - 1)
      else Inr Scene_default)"

fun generate_scenes_loop ::
  "completion \<Rightarrow> SceneOutput PydanticOutputParser \<Rightarrow> AdDetails \<Rightarrow> Scene list \<Rightarrow> int list
     \<Rightarrow> SceneOutput list \<Rightarrow> string list \<Rightarrow> (error + SceneOutput list) \<times> string list" where
  "generate_scenes_loop model p ad_details input_scenes [] scenes_output sent =
     (Inr scenes_output, sent)"
| "generate_scenes_loop model p ad_details input_scenes (i # rest) scenes_output sent =
     (case select_input_scene input_scenes i of
        Inl e \<Rightarrow> (Inl e, sent)
      | Inr input_scene \<Rightarrow>
          (case generate_single_scene model p i input_scene ad_details sent of
             (Inl e, sent') \<Rightarrow> (Inl e, sent')
           | (Inr scene_output, sent') \<Rightarrow>
               generate_scenes_loop model p ad_details input_scenes rest
                 (scenes_output @ [scene_output]) sent'))"

text \<open>
  \<^verbatim>\<open>SceneGenerator.generate_scenes\<close>; \<^verbatim>\<open>if not input_scenes\<close> replaces
  \<^verbatim>\<open>None\<close> (and the empty list) by the empty list.
\<close>

definition generate_scenes ::
  "completion \<Rightarrow> SceneOutput PydanticOutputParser \<Rightarrow> AdDetails \<Rightarrow> Scene list option
     \<Rightarrow> string list \<Rightarrow> (error + SceneOutput list) \<times> string list" where
  "generate_scenes model p ad_details input_scenes sent =
     (let input_scenes = (case input_scenes of None \<Rightarrow> [] | Some xs \<Rightarrow> xs);
          num_scenes = AdDetails.number_of_scenes ad_details
      in generate_scenes_loop model p ad_details input_scenes [1..num_scenes] [] sent)"

section \<open>Prompt derivation stage (scene_generator.py)\<close>

text \<open>
  \<^verbatim>\<open>SceneGenerator._generate_single_txt2img_prompt\<close>, with the same
  \<^verbatim>\<open>try\<close>: on either path the parsed record's scene number is assigned from the
  scene before it is returned.
\<close>

definition generate_single_txt2img_prompt ::
  "completion \<Rightarrow> TextToImagePrompt PydanticOutputParser \<Rightarrow> SceneOutput \<Rightarrow> string list
     \<Rightarrow> (error + TextToImagePrompt) \<times> string list" where
  "generate_single_txt2img_prompt model txt2img_output_parser scene sent =
     (let format_instructions = get_format_instructions txt2img_output_parser;
          prompt = single_txt2img_prompt format_instructions scene
      in case generate_content model prompt sent of
           (Inl e, sent1) \<Rightarrow> (Inl e, sent1)
         | (Inr response, sent1) \<Rightarrow>
             (case parse_response_text txt2img_output_parser response of
                Inr txt2img_prompt \<Rightarrow> (Inr (txt2img_prompt\<lparr>TextToImagePrompt.scene_number :=
                          SceneOutput.scene_number scene\<rparr>), sent1)
              | Inl e \<Rightarrow>
                  (let retry_prompt = single_txt2img_retry_prompt prompt scene
                   in case generate_content model retry_prompt sent1 of
                        (Inl e', sent2) \<Rightarrow> (Inl e', sent2)
                      | (Inr retry_response, sent2) \<Rightarrow>
                          (case parse_response_text txt2img_output_parser retry_response of
                             Inr txt2img_prompt \<Rightarrow> (Inr (txt2img_prompt\<lparr>TextToImagePrompt.scene_number :=
                          SceneOutput.scene_number scene\<rparr>), sent2)
                           | Inl e' \<Rightarrow> (Inl e', sent2)))))"

text \<open>\<^verbatim>\<open>SceneGenerator._generate_single_img2vid_prompt\<close>, of the same shape.\<close>

definition generate_single_img2vid_prompt ::
  "completion \<Rightarrow> ImageToVideoPrompt PydanticOutputParser \<Rightarrow> SceneOutput \<Rightarrow> TextToImagePrompt
     \<Rightarrow> string list \<Rightarrow> (error + ImageToVideoPrompt) \<times> string list" where
  "generate_single_img2vid_prompt model img2vid_output_parser scene txt2img_prompt sent =
     (let format_instructions = get_format_instructions img2vid_output_parser;
          prompt = single_img2vid_prompt format_instructions scene txt2img_prompt
      in case generate_content model prompt sent of
           (Inl e, sent1) \<Rightarrow> (Inl e, sent1)
         | (Inr response, sent1) \<Rightarrow>
             (case parse_response_text img2vid_output_parser response of
                Inr img2vid_prompt \<Rightarrow> (Inr (img2vid_prompt\<lparr>ImageToVideoPrompt.scene_number :=
                          SceneOutput.scene_number scene\<rparr>), sent1)
              | Inl e \<Rightarrow>
                  (let retry_prompt = single_img2vid_retry_prompt prompt scene
                   in case generate_content model retry_prompt sent1 of
                        (Inl e', sent2) \<Rightarrow> (Inl e', sent2)
                      | (Inr retry_response, sent2) \<Rightarrow>
                          (case parse_response_text img2vid_output_parser retry_response of
                             Inr img2vid_prompt \<Rightarrow> (Inr (img2vid_prompt\<lparr>ImageToVideoPrompt.scene_number :=
                          SceneOutput.scene_number scene\<rparr>), sent2)
                           | Inl e' \<Rightarrow> (Inl e', sent2)))))"

text \<open>
  The loop of \<^verbatim>\<open>generate_image_to_video_prompts\<close> over
  \<^verbatim>\<open>zip(scenes, txt2img_prompts)\<close>, which stops with the shorter list.
\<close>

fun generate_image_to_video_prompts_loop ::
  "completion \<Rightarrow> ImageToVideoPrompt PydanticOutputParser \<Rightarrow> (SceneOutput \<times> TextToImagePrompt) list
     \<Rightarrow> ImageToVideoPrompt list \<Rightarrow> string list
     \<Rightarrow> (error + ImageToVideoPrompt list) \<times> string list" where
  "generate_image_to_video_prompts_loop model p [] img2vid_prompts sent =
     (Inr img2vid_prompts, sent)"
| "generate_image_to_video_prompts_loop model p ((scene, txt2img_prompt) # rest)
       img2vid_prompts sent =
     (case generate_single_img2vid_prompt model p scene txt2img_prompt sent of
        (Inl e, sent') \<Rightarrow> (Inl e, sent')
      | (Inr img2vid_prompt, sent') \<Rightarrow>
          generate_image_to_video_prompts_loop model p rest
            (img2vid_prompts @ [img2vid_prompt]) sent')"

definition generate_image_to_video_prompts ::
  "completion \<Rightarrow> ImageToVideoPrompt PydanticOutputParser \<Rightarrow> SceneOutput list
     \<Rightarrow> TextToImagePrompt list \<Rightarrow> string list
     \<Rightarrow> (error + ImageToVideoPrompt list) \<times> string list" where
  "generate_image_to_video_prompts model p scene_outputs txt2img_prompts sent =
     generate_image_to_video_prompts_loop model p (zip scene_outputs txt2img_prompts) [] sent"

section \<open>Example values\<close>

text \<open>
  Concrete inputs on which the theorems below are exercised: a resolved campaign, a request
  with no scene count, one record of each generated shape, parsers that accept the texts
  \<open>ok\<close> and \<open>other\<close>, and five completion stubs.
\<close>

definition example_request :: AdStoryboardRequest where
  "example_request = \<lparr> AdStoryboardRequest.product_name = Some ''QuietBeats'',
     AdStoryboardRequest.product_description = None,
     AdStoryboardRequest.target_audience = None,
     AdStoryboardRequest.selling_point = None,
     AdStoryboardRequest.key_message = None,
     AdStoryboardRequest.duration_of_ad = None,
     AdStoryboardRequest.tone = None,
     AdStoryboardRequest.purpose = None,
     AdStoryboardRequest.country = None,
     AdStoryboardRequest.number_of_scenes = None,
     AdStoryboardRequest.scenes = None \<rparr>"

definition example_ad_details :: AdDetails where
  "example_ad_details = \<lparr> AdDetails.product_name = ''QuietBeats'',
     AdDetails.product_description = ''noise-cancelling headphones'',
     AdDetails.target_audience = ''commuters'',
     AdDetails.selling_point = ''noise cancellation'',
     AdDetails.key_message = ''Isolate yourself from the world'',
     AdDetails.duration_of_ad = ''30 seconds'',
     AdDetails.tone = ''calm'',
     AdDetails.purpose = ''product launch'',
     AdDetails.country = ''International'',
     AdDetails.number_of_scenes = 2 \<rparr>"

definition scene_with_override :: Scene where
  "scene_with_override =
     Scene_default\<lparr>Scene.user_recommendation := Some ''character waves at camera in slow motion''\<rparr>"

definition example_scene_output :: SceneOutput where
  "example_scene_output = \<lparr> SceneOutput.scene_number = 7,
     SceneOutput.characters = ''a commuter'',
     SceneOutput.environment = ''a train'',
     SceneOutput.timing_of_day = ''morning'',
     SceneOutput.scene_duration = ''5 seconds'',
     SceneOutput.scene_goal = ''show the noise'',
     SceneOutput.visuals = ''crowded carriage'',
     SceneOutput.camera_work = ''slow push-in'',
     SceneOutput.sound_design = ''train noise'',
     SceneOutput.transition = ''cut'' \<rparr>"

definition example_character :: CharacterDetails where
  "example_character = \<lparr> CharacterDetails.name = ''Maya'',
     CharacterDetails.appearance = ''30, short hair'',
     CharacterDetails.clothing = ''grey coat'',
     CharacterDetails.expression = ''tired'' \<rparr>"

definition example_txt2img_prompt :: TextToImagePrompt where
  "example_txt2img_prompt = \<lparr> TextToImagePrompt.scene_number = 9,
     TextToImagePrompt.characters = [example_character],
     TextToImagePrompt.action = ''puts on headphones'',
     TextToImagePrompt.environment_location = ''train carriage'',
     TextToImagePrompt.environment_lighting = ''cold morning light'',
     TextToImagePrompt.environment_details = ''steamed windows'',
     TextToImagePrompt.style_type = ''Photorealistic CGI'',
     TextToImagePrompt.style_technique = ''shallow depth of field'',
     TextToImagePrompt.style_reference = ''Gregory Crewdson'' \<rparr>"

definition example_img2vid_prompt :: ImageToVideoPrompt where
  "example_img2vid_prompt = \<lparr> ImageToVideoPrompt.scene_number = 5,
     ImageToVideoPrompt.characters = [example_character],
     ImageToVideoPrompt.action = ''0.8s raises headphones'',
     ImageToVideoPrompt.environment_location = ''train carriage'',
     ImageToVideoPrompt.environment_lighting = ''flickering light'',
     ImageToVideoPrompt.environment_details = ''steamed windows'',
     ImageToVideoPrompt.style_type = ''Photorealistic CGI'',
     ImageToVideoPrompt.style_technique = ''motion blur'',
     ImageToVideoPrompt.style_reference = ''Gregory Crewdson'' \<rparr>"

definition example_ad_parser :: "AdDetails PydanticOutputParser" where
  "example_ad_parser = \<lparr> parse = (\<lambda>text. if text = ''ok'' then Some example_ad_details else None),
     get_format_instructions = [] \<rparr>"

definition example_scene_parser :: "SceneOutput PydanticOutputParser" where
  "example_scene_parser = \<lparr> parse = (\<lambda>text.
       if text = ''ok'' then Some example_scene_output
       else if text = ''other''
         then Some (example_scene_output\<lparr>SceneOutput.visuals := ''empty platform''\<rparr>)
       else None),
     get_format_instructions = [] \<rparr>"

definition example_txt2img_parser :: "TextToImagePrompt PydanticOutputParser" where
  "example_txt2img_parser =
     \<lparr> parse = (\<lambda>text. if text = ''ok'' then Some example_txt2img_prompt else None),
       get_format_instructions = [] \<rparr>"

definition example_img2vid_parser :: "ImageToVideoPrompt PydanticOutputParser" where
  "example_img2vid_parser =
     \<lparr> parse = (\<lambda>text. if text = ''ok'' then Some example_img2vid_prompt else None),
       get_format_instructions = [] \<rparr>"

definition always_ok :: completion where
  "always_ok = (\<lambda>sent prompt. Inr (Inr ''ok''))"

definition ok_on_retry :: completion where
  "ok_on_retry = (\<lambda>sent prompt. if sent = [] then Inr (Inr ''bad'') else Inr (Inr ''ok''))"

definition never_ok :: completion where
  "never_ok = (\<lambda>sent prompt. Inr (Inr ''bad''))"

text \<open>A stub whose first response has no readable text and whose later ones read \<open>ok\<close>.\<close>

definition unreadable_then_ok :: completion where
  "unreadable_then_ok =
     (\<lambda>sent prompt. if sent = [] then Inr (Inl ResponseTextError) else Inr (Inr ''ok''))"

text \<open>
  A stub that answers the two prompts of scene 1 (for \<^const>\<open>scene_with_override\<close>) as
  \<^const>\<open>always_ok\<close> does and every other prompt differently.
\<close>

definition other_after_first_scene :: completion where
  "other_after_first_scene = (\<lambda>sent prompt.
     if prompt = single_scene_prompt [] 1 scene_with_override example_ad_details \<or>
        prompt = single_scene_retry_prompt
                   (single_scene_prompt [] 1 scene_with_override example_ad_details) 1
     then Inr (Inr ''ok'') else Inr (Inr ''other''))"

text \<open>
  A JSON text without the two style keys, the object a JSON reader makes of it, a reader
  that knows this one text, and converters for its values.
\<close>

definition example_json_text :: string where
  \<open>example_json_text = ''{"scene_number": 3, "characters": [], "action": "waves", "environment_location": "train", "environment_lighting": "dim", "environment_details": "fog", "style_technique": "cel"}''\<close>

definition example_json_object :: "string \<rightharpoonup> string" where
  "example_json_object = map_of [(''scene_number'', ''3''), (''characters'', ''[]''),
     (''action'', ''waves''), (''environment_location'', ''train''),
     (''environment_lighting'', ''dim''), (''environment_details'', ''fog''),
     (''style_technique'', ''cel'')]"

definition example_json_loads :: "string \<Rightarrow> (string \<rightharpoonup> string) option" where
  "example_json_loads text =
     (if text = example_json_text then Some example_json_object else None)"

definition example_converters :: "string converters" where
  "example_converters = \<lparr>
     to_str = (\<lambda>v. Some v),
     to_int = (\<lambda>v. if v = ''3'' then Some 3 else None),
     to_characters = (\<lambda>v. if v = ''[]'' then Some [] else None) \<rparr>"

section \<open>Auxiliary facts\<close>

subsection \<open>Containment in composed texts\<close>

lemma sublist_chain: "sublist xs ys \<Longrightarrow> sublist ys zs \<Longrightarrow> sublist xs zs"
  by (rule sublist_order.order.trans)

lemma sublist_concat_member: "x \<in> set xss \<Longrightarrow> sublist x (concat xss)"
proof -
  assume "x \<in> set xss"
  then obtain as bs where "xss = as @ x # bs" by (auto dest: split_list)
  then have "concat xss = concat as @ x @ concat bs" by simp
  then show ?thesis by (simp only: sublist_appendI)
qed

lemma sublist_concat_mono: "sublist xs ys \<Longrightarrow> sublist (concat xs) (concat ys)"
proof -
  assume "sublist xs ys"
  then obtain ps ss where "ys = ps @ xs @ ss" by (auto simp: sublist_def)
  then have "concat ys = concat ps @ concat xs @ concat ss" by simp
  then show ?thesis by (simp only: sublist_appendI)
qed

lemma scene_priority_block:
  assumes "Scene.user_recommendation s = Some r" "r \<noteq> []"
  shows "sublist (''        CRITICAL USER SCENE DESCRIPTION - MUST INCLUDE VERBATIM:\<newline>        '' @ r @
                  ''\<newline>\<newline>        STRICT RULES:\<newline>'')
           (single_scene_priority_instructions s)"
proof -
  have eq: "''        CRITICAL USER SCENE DESCRIPTION - MUST INCLUDE VERBATIM:\<newline>        '' @ r @
                  ''\<newline>\<newline>        STRICT RULES:\<newline>''
     = concat [''        CRITICAL USER SCENE DESCRIPTION - MUST INCLUDE VERBATIM:\<newline>'',
        ''        '', r, ''\<newline>'', ''\<newline>'', ''        STRICT RULES:\<newline>'']"
    by simp
  have t: "truthy (Scene.user_recommendation s)" using assms by (simp add: truthy_def)
  show ?thesis
    unfolding eq single_scene_priority_instructions_def
    using assms t
    by (simp only: if_True str_of_optional_def option.case)
       (rule sublist_concat_mono, simp add: sublist_Cons_right)
qed

lemma scene_prompt_has_priority:
  "sublist (single_scene_priority_instructions s) (single_scene_prompt fi i s ad)"
  unfolding single_scene_prompt_def
  by (rule sublist_concat_member) simp

lemma scene_retry_has_prompt: "sublist P (single_scene_retry_prompt P i)"
  unfolding single_scene_retry_prompt_def
  by (rule sublist_concat_member) simp

subsection \<open>The two-attempt call, site by site\<close>

lemma generate_content_simp:
  "generate_content model prompt sent = (model sent prompt, sent @ [prompt])"
  by (simp add: generate_content_def)

lemma parse_response_text_simps:
  "parse_response_text p (Inl e) = Inl e"
  "parse_response_text p (Inr t) =
     (case parse p t of None \<Rightarrow> Inl OutputParserException | Some r \<Rightarrow> Inr r)"
  by (simp_all add: parse_response_text_def)

lemma generate_ad_details_unfold:
  "generate_ad_details model p request sent =
     (let P = ad_details_prompt (get_format_instructions p) request;
          R = ad_details_retry_prompt P request
      in case model sent P of
           Inl e \<Rightarrow> (Inl e, sent @ [P])
         | Inr response \<Rightarrow>
             (case parse_response_text p response of
                Inr r \<Rightarrow> (Inr r, sent @ [P])
              | Inl e \<Rightarrow>
                  (case model (sent @ [P]) R of
                     Inl e' \<Rightarrow> (Inl e', sent @ [P, R])
                   | Inr retry_response \<Rightarrow>
                       (parse_response_text p retry_response, sent @ [P, R]))))"
  by (simp add: generate_ad_details_def generate_content_simp Let_def
      split: sum.splits)

lemma generate_single_txt2img_prompt_unfold:
  "generate_single_txt2img_prompt model p scene sent =
     (let P = single_txt2img_prompt (get_format_instructions p) scene;
          R = single_txt2img_retry_prompt P scene
      in case model sent P of
           Inl e \<Rightarrow> (Inl e, sent @ [P])
         | Inr response \<Rightarrow>
             (case parse_response_text p response of
                Inr r \<Rightarrow>
                  (Inr (r\<lparr>TextToImagePrompt.scene_number := SceneOutput.scene_number scene\<rparr>),
                   sent @ [P])
              | Inl e \<Rightarrow>
                  (case model (sent @ [P]) R of
                     Inl e' \<Rightarrow> (Inl e', sent @ [P, R])
                   | Inr retry_response \<Rightarrow>
                       (case parse_response_text p retry_response of
                          Inr r \<Rightarrow>
                            (Inr (r\<lparr>TextToImagePrompt.scene_number :=
                                      SceneOutput.scene_number scene\<rparr>), sent @ [P, R])
                        | Inl e' \<Rightarrow> (Inl e', sent @ [P, R])))))"
  by (simp add: generate_single_txt2img_prompt_def generate_content_simp Let_def
      split: sum.splits)

lemma generate_single_scene_unfold:
  "generate_single_scene model p i s ad sent =
     (let P = single_scene_prompt (get_format_instructions p) i s ad;
          R = single_scene_retry_prompt P i
      in case model sent P of
           Inl e \<Rightarrow> (Inl e, sent @ [P])
         | Inr response \<Rightarrow>
             (case parse_response_text p response of
                Inr r \<Rightarrow> (Inr r, sent @ [P])
              | Inl e \<Rightarrow>
                  (case model (sent @ [P]) R of
                     Inl e' \<Rightarrow> (Inl e', sent @ [P, R])
                   | Inr retry_response \<Rightarrow>
                       (parse_response_text p retry_response, sent @ [P, R]))))"
  by (simp add: generate_single_scene_def generate_content_simp Let_def
      split: sum.splits)

lemma generate_single_scene_history:
  "snd (generate_single_scene model p i s ad sent) =
      sent @ [single_scene_prompt (get_format_instructions p) i s ad] \<or>
   snd (generate_single_scene model p i s ad sent) =
      sent @ [single_scene_prompt (get_format_instructions p) i s ad,
              single_scene_retry_prompt (single_scene_prompt (get_format_instructions p) i s ad) i]"
  by (simp add: generate_single_scene_unfold Let_def split: sum.splits)

lemma generate_single_scene_agree:
  assumes "model1 h1 (single_scene_prompt (get_format_instructions p) i s ad) =
           model2 h2 (single_scene_prompt (get_format_instructions p) i s ad)"
    and "model1 (h1 @ [single_scene_prompt (get_format_instructions p) i s ad])
           (single_scene_retry_prompt (single_scene_prompt (get_format_instructions p) i s ad) i) =
         model2 (h2 @ [single_scene_prompt (get_format_instructions p) i s ad])
           (single_scene_retry_prompt (single_scene_prompt (get_format_instructions p) i s ad) i)"
  shows "fst (generate_single_scene model1 p i s ad h1) =
         fst (generate_single_scene model2 p i s ad h2)"
  using assms
  by (simp add: generate_single_scene_unfold Let_def split: sum.splits)

lemma generate_single_img2vid_prompt_unfold:
  "generate_single_img2vid_prompt model p scene t sent =
     (let P = single_img2vid_prompt (get_format_instructions p) scene t;
          R = single_img2vid_retry_prompt P scene
      in case model sent P of
           Inl e \<Rightarrow> (Inl e, sent @ [P])
         | Inr response \<Rightarrow>
             (case parse_response_text p response of
                Inr r \<Rightarrow>
                  (Inr (r\<lparr>ImageToVideoPrompt.scene_number := SceneOutput.scene_number scene\<rparr>),
                   sent @ [P])
              | Inl e \<Rightarrow>
                  (case model (sent @ [P]) R of
                     Inl e' \<Rightarrow> (Inl e', sent @ [P, R])
                   | Inr retry_response \<Rightarrow>
                       (case parse_response_text p retry_response of
                          Inr r \<Rightarrow>
                            (Inr (r\<lparr>ImageToVideoPrompt.scene_number :=
                                      SceneOutput.scene_number scene\<rparr>), sent @ [P, R])
                        | Inl e' \<Rightarrow> (Inl e', sent @ [P, R])))))"
  by (simp add: generate_single_img2vid_prompt_def generate_content_simp Let_def
      split: sum.splits)

lemma generate_single_img2vid_prompt_number:
  "generate_single_img2vid_prompt model p scene t sent = (Inr r, sent') \<Longrightarrow>
     ImageToVideoPrompt.scene_number r = SceneOutput.scene_number scene"
  by (auto simp: generate_single_img2vid_prompt_unfold Let_def split: sum.splits)

subsection \<open>The loops\<close>

lemma select_input_scene_pos:
  "1 \<le> i \<Longrightarrow> select_input_scene xs i =
     Inr (if i \<le> int (length xs) then xs ! nat (i - 1) else Scene_default)"
  by (auto simp: select_input_scene_def list_getitem_def)

lemma generate_scenes_loop_result:
  assumes "generate_scenes_loop model p ad xs js acc sent = (Inr ys, sent')"
    and "\<forall>j \<in> set js. select_input_scene xs j = Inr (f j)"
  shows "length ys = length acc + length js \<and> take (length acc) ys = acc \<and>
         (\<forall>k < length js. \<exists>h h'.
            generate_single_scene model p (js ! k) (f (js ! k)) ad h
            = (Inr (ys ! (length acc + k)), h'))"
  using assms
proof (induction js arbitrary: acc sent)
  case Nil
  then show ?case by simp
next
  case (Cons j js)
  have sel: "select_input_scene xs j = Inr (f j)"
    using Cons.prems(2) by simp
  obtain res s1 where call: "generate_single_scene model p j (f j) ad sent = (res, s1)"
    by (cases "generate_single_scene model p j (f j) ad sent")
  from Cons.prems(1) sel call obtain so where res: "res = Inr so"
    by (cases res) auto
  from Cons.prems(1) sel call res
  have rest: "generate_scenes_loop model p ad xs js (acc @ [so]) s1 = (Inr ys, sent')"
    by simp
  from Cons.IH [OF rest] Cons.prems(2)
  have len: "length ys = length (acc @ [so]) + length js"
    and tk: "take (length (acc @ [so])) ys = acc @ [so]"
    and el: "\<forall>k < length js. \<exists>h h'.
            generate_single_scene model p (js ! k) (f (js ! k)) ad h
            = (Inr (ys ! (length (acc @ [so]) + k)), h')"
    by simp_all
  have tk_acc: "take (length acc) ys = acc"
  proof -
    have "take (length acc) (take (length (acc @ [so])) ys) = take (length acc) (acc @ [so])"
      by (simp only: tk)
    then show ?thesis by (simp add: min_def)
  qed
  have at: "ys ! length acc = so"
  proof -
    have "ys ! length acc = take (length (acc @ [so])) ys ! length acc" by simp
    also have "\<dots> = (acc @ [so]) ! length acc" by (simp only: tk)
    finally show ?thesis by simp
  qed
  have "\<exists>h h'. generate_single_scene model p ((j # js) ! k) (f ((j # js) ! k)) ad h
            = (Inr (ys ! (length acc + k)), h')" if "k < length (j # js)" for k
  proof (cases k)
    case 0
    with call res at show ?thesis by auto
  next
    case (Suc k')
    with that el show ?thesis by (auto simp: add.commute)
  qed
  with len tk_acc show ?case by simp
qed

lemma generate_scenes_loop_success:
  assumes "\<forall>j \<in> set js. select_input_scene xs j = Inr (f j) \<and>
             (\<forall>h. \<exists>r h'. generate_single_scene model p j (f j) ad h = (Inr r, h'))"
  shows "\<exists>ys sent'. generate_scenes_loop model p ad xs js acc sent = (Inr ys, sent')"
  using assms
proof (induction js arbitrary: acc sent)
  case Nil
  then show ?case by simp
next
  case (Cons j js)
  from Cons.prems have sel: "select_input_scene xs j = Inr (f j)"
    by simp
  from Cons.prems obtain r h' where call: "generate_single_scene model p j (f j) ad sent = (Inr r, h')"
    by (meson list.set_intros(1))
  from Cons.prems have "\<forall>j \<in> set js. select_input_scene xs j = Inr (f j) \<and>
             (\<forall>h. \<exists>r h'. generate_single_scene model p j (f j) ad h = (Inr r, h'))"
    by simp
  from Cons.IH [OF this, of "acc @ [r]" h'] sel call show ?case by simp
qed

lemma upto_nth_from_one: "1 \<le> i \<Longrightarrow> i \<le> n \<Longrightarrow> [1..n] ! nat (i - 1) = i"
  by simp

lemma img2vid_loop_result:
  assumes "generate_image_to_video_prompts_loop model p zs acc sent = (Inr ys, sent')"
  shows "length ys = length acc + length zs \<and> take (length acc) ys = acc \<and>
         (\<forall>k < length zs.
            ImageToVideoPrompt.scene_number (ys ! (length acc + k)) =
            SceneOutput.scene_number (fst (zs ! k)))"
  using assms
proof (induction zs arbitrary: acc sent)
  case Nil
  then show ?case by simp
next
  case (Cons z zs)
  obtain scene t where z: "z = (scene, t)" by (cases z)
  obtain res s1 where call: "generate_single_img2vid_prompt model p scene t sent = (res, s1)"
    by (cases "generate_single_img2vid_prompt model p scene t sent")
  from Cons.prems z call obtain r where res: "res = Inr r"
    by (cases res) auto
  from Cons.prems z call res
  have rest: "generate_image_to_video_prompts_loop model p zs (acc @ [r]) s1 = (Inr ys, sent')"
    by simp
  from Cons.IH [OF rest]
  have len: "length ys = length (acc @ [r]) + length zs"
    and tk: "take (length (acc @ [r])) ys = acc @ [r]"
    and el: "\<forall>k < length zs.
            ImageToVideoPrompt.scene_number (ys ! (length (acc @ [r]) + k)) =
            SceneOutput.scene_number (fst (zs ! k))"
    by simp_all
  have tk_acc: "take (length acc) ys = acc"
  proof -
    have "take (length acc) (take (length (acc @ [r])) ys) = take (length acc) (acc @ [r])"
      by (simp only: tk)
    then show ?thesis by (simp add: min_def)
  qed
  have at: "ys ! length acc = r"
  proof -
    have "ys ! length acc = take (length (acc @ [r])) ys ! length acc" by simp
    also have "\<dots> = (acc @ [r]) ! length acc" by (simp only: tk)
    finally show ?thesis by simp
  qed
  have num: "ImageToVideoPrompt.scene_number r = SceneOutput.scene_number scene"
    using call res by (simp add: generate_single_img2vid_prompt_number)
  have "ImageToVideoPrompt.scene_number (ys ! (length acc + k)) =
        SceneOutput.scene_number (fst ((z # zs) ! k))" if "k < length (z # zs)" for k
  proof (cases k)
    case 0
    with at num z show ?thesis by simp
  next
    case (Suc k')
    with that el show ?thesis by (auto simp: add.commute)
  qed
  with len tk_acc show ?case by simp
qed

lemma img2vid_loop_success:
  assumes "\<forall>(scene, t) \<in> set zs. \<forall>h. \<exists>r h'.
             generate_single_img2vid_prompt model p scene t h = (Inr r, h')"
  shows "\<exists>ys sent'. generate_image_to_video_prompts_loop model p zs acc sent = (Inr ys, sent')"
  using assms
proof (induction zs arbitrary: acc sent)
  case Nil
  then show ?case by simp
next
  case (Cons z zs)
  obtain scene t where z: "z = (scene, t)" by (cases z)
  from Cons.prems z obtain r h' where
    call: "generate_single_img2vid_prompt model p scene t sent = (Inr r, h')"
    by fastforce
  from Cons.prems have "\<forall>(scene, t) \<in> set zs. \<forall>h. \<exists>r h'.
             generate_single_img2vid_prompt model p scene t h = (Inr r, h')"
    by simp
  from Cons.IH [OF this, of "acc @ [r]" h'] z call show ?case by simp
qed

lemma generate_scenes_as_loop:
  "generate_scenes model p ad input_scenes sent =
     generate_scenes_loop model p ad (case input_scenes of None \<Rightarrow> [] | Some l \<Rightarrow> l)
       [1..AdDetails.number_of_scenes ad] [] sent"
  by (simp add: generate_scenes_def)

lemma generate_scenes_elements:
  assumes xs: "xs = (case input_scenes of None \<Rightarrow> [] | Some l \<Rightarrow> l)"
    and N: "AdDetails.number_of_scenes ad = N"
    and ret: "generate_scenes model p ad input_scenes sent = (Inr ys, sent')"
  shows "length ys = nat N \<and>
         (\<forall>i \<in> {1..N}. \<exists>h h'.
            generate_single_scene model p i
              (if i \<le> int (length xs) then xs ! nat (i - 1) else Scene_default) ad h
            = (Inr (ys ! nat (i - 1)), h'))"
proof -
  let ?f = "\<lambda>i. if i \<le> int (length xs) then xs ! nat (i - 1) else Scene_default"
  have sel: "\<forall>j \<in> set [1..N]. select_input_scene xs j = Inr (?f j)"
    by (simp add: select_input_scene_pos)
  from ret have "generate_scenes_loop model p ad xs [1..N] [] sent = (Inr ys, sent')"
    by (simp add: generate_scenes_as_loop xs N)
  from generate_scenes_loop_result [OF this sel]
  have len: "length ys = nat N"
    and el: "\<forall>k < length [1..N]. \<exists>h h'.
          generate_single_scene model p ([1..N] ! k) (?f ([1..N] ! k)) ad h
          = (Inr (ys ! k), h')"
    by simp_all
  have "\<exists>h h'. generate_single_scene model p i (?f i) ad h = (Inr (ys ! nat (i - 1)), h')"
    if i: "i \<in> {1..N}" for i
  proof -
    from i have k: "nat (i - 1) < length [1..N]" by simp
    from i have "[1..N] ! nat (i - 1) = i" by (simp add: upto_nth_from_one)
    with el k show ?thesis by (metis (no_types, lifting))
  qed
  with len show ?thesis by blast
qed

lemma generate_scenes_returns:
  assumes xs: "xs = (case input_scenes of None \<Rightarrow> [] | Some l \<Rightarrow> l)"
    and N: "AdDetails.number_of_scenes ad = N"
    and ok: "\<forall>i \<in> {1..N}. \<forall>h. \<exists>r h'.
           generate_single_scene model p i
             (if i \<le> int (length xs) then xs ! nat (i - 1) else Scene_default) ad h
           = (Inr r, h')"
  shows "\<exists>ys sent'. generate_scenes model p ad input_scenes sent = (Inr ys, sent')"
proof -
  let ?f = "\<lambda>i. if i \<le> int (length xs) then xs ! nat (i - 1) else Scene_default"
  have "\<forall>j \<in> set [1..N]. select_input_scene xs j = Inr (?f j) \<and>
          (\<forall>h. \<exists>r h'. generate_single_scene model p j (?f j) ad h = (Inr r, h'))"
    using ok by (simp add: select_input_scene_pos)
  from generate_scenes_loop_success [OF this]
  show ?thesis by (simp add: generate_scenes_as_loop xs N)
qed

subsection \<open>The example values, evaluated\<close>

lemma upto_1_2: "[1..2::int] = [1, 2]"
  by (simp add: upto_rec1)

lemma example_ad_details_scenes: "AdDetails.number_of_scenes example_ad_details = 2"
  by (simp add: example_ad_details_def)

lemma always_ok_scene:
  "generate_single_scene always_ok example_scene_parser i s ad sent =
     (Inr example_scene_output, sent @ [single_scene_prompt [] i s ad])"
  by (simp add: generate_single_scene_unfold always_ok_def example_scene_parser_def Let_def
      parse_response_text_simps)

lemma always_ok_img2vid:
  "generate_single_img2vid_prompt always_ok example_img2vid_parser scene t sent =
     (Inr (example_img2vid_prompt\<lparr>ImageToVideoPrompt.scene_number :=
             SceneOutput.scene_number scene\<rparr>),
      sent @ [single_img2vid_prompt [] scene t])"
  by (simp add: generate_single_img2vid_prompt_unfold always_ok_def example_img2vid_parser_def
      Let_def parse_response_text_simps)

lemma example_run_always_ok:
  "generate_scenes always_ok example_scene_parser example_ad_details (Some [scene_with_override]) [] =
     (Inr [example_scene_output, example_scene_output],
      [single_scene_prompt [] 1 scene_with_override example_ad_details,
       single_scene_prompt [] 2 Scene_default example_ad_details])"
  by (simp add: generate_scenes_def example_ad_details_scenes upto_1_2 select_input_scene_def
      list_getitem_def always_ok_scene Let_def)

lemma example_prompts_differ:
  "single_scene_prompt [] 2 Scene_default example_ad_details \<noteq>
   single_scene_prompt [] 1 scene_with_override example_ad_details"
  by (simp add: single_scene_prompt_def single_scene_priority_instructions_def truthy_def
      scene_with_override_def Scene_default_def example_ad_details_def py_or_def str_int_def
      digit_char_def str_of_optional_def)

lemma scene_prompt_not_retry:
  "single_scene_prompt fi i s ad \<noteq> single_scene_retry_prompt P j"
proof -
  have "\<exists>X. single_scene_prompt fi i s ad = ''\<newline>'' @
          ''        Generate a detailed scene for an advertisement storyboard based on the provided information.\<newline>'' @ X"
    unfolding single_scene_prompt_def concat.simps by (rule exI, rule refl)
  moreover have "\<exists>Y. single_scene_retry_prompt P j = ''\<newline>'' @ ''            '' @ Y"
    unfolding single_scene_retry_prompt_def concat.simps by (rule exI, rule refl)
  ultimately show ?thesis by auto
qed

lemma example_run_other:
  "generate_scenes other_after_first_scene example_scene_parser example_ad_details
     (Some [scene_with_override]) [] =
     (Inr [example_scene_output, example_scene_output\<lparr>SceneOutput.visuals := ''empty platform''\<rparr>],
      [single_scene_prompt [] 1 scene_with_override example_ad_details,
       single_scene_prompt [] 2 Scene_default example_ad_details])"
  by (simp add: generate_scenes_def example_ad_details_scenes upto_1_2 select_input_scene_def
      list_getitem_def generate_single_scene_unfold other_after_first_scene_def
      example_scene_parser_def example_prompts_differ scene_prompt_not_retry Let_def
      parse_response_text_simps)

lemma example_request_fields:
  "AdStoryboardRequest.product_name example_request = Some ''QuietBeats''"
  "AdStoryboardRequest.country example_request = None"
  "AdStoryboardRequest.number_of_scenes example_request = None"
  by (simp_all add: example_request_def)

lemma example_scene_no_override_in_txt2img:
  "\<not> sublist ''character waves at camera in slow motion''
       (single_txt2img_prompt [] example_scene_output)"
  by (simp add: single_txt2img_prompt_def single_txt2img_priority_instructions_def
      SceneOutput_getattr_user_recommendation_def truthy_def example_scene_output_def
      str_int_def digit_char_def sublist_Cons_right)

lemma example_scene_no_override_in_img2vid:
  "\<not> sublist ''character waves at camera in slow motion''
       (single_img2vid_prompt [] example_scene_output example_txt2img_prompt)"
  by (simp add: single_img2vid_prompt_def single_img2vid_priority_instructions_def
      SceneOutput_getattr_user_recommendation_def truthy_def example_scene_output_def
      example_txt2img_prompt_def example_character_def character_summary_def
      str_int_def digit_char_def sublist_Cons_right)

lemma example_request_no_scene_count_sentinel:
  "\<not> sublist ''Number of Scenes: Not specified'' (ad_details_prompt [] example_request)"
  by (simp add: ad_details_prompt_def example_request_def py_or_def str_of_optional_int_def
      sublist_Cons_right)

subsection \<open>Lines of the ad details prompt\<close>

lemma field_line: "sublist [a, v, n] xss \<Longrightarrow> sublist (a @ v @ n) (concat xss)"
  using sublist_concat_mono [of "[a, v, n]" xss] by simp

lemma ad_details_prompt_lines:
  "sublist (''        - Product Name: '' @
      py_or (AdStoryboardRequest.product_name request) ''Not specified'' @ ''\<newline>'')
     (ad_details_prompt fi request)"
  "sublist (''        - Product Description: '' @
      py_or (AdStoryboardRequest.product_description request) ''Not specified'' @ ''\<newline>'')
     (ad_details_prompt fi request)"
  "sublist (''        - Target Audience: '' @
      py_or (AdStoryboardRequest.target_audience request) ''Not specified'' @ ''\<newline>'')
     (ad_details_prompt fi request)"
  "sublist (''        - Selling Point: '' @
      py_or (AdStoryboardRequest.selling_point request) ''Not specified'' @ ''\<newline>'')
     (ad_details_prompt fi request)"
  "sublist (''        - Key Message: '' @
      py_or (AdStoryboardRequest.key_message request) ''Not specified'' @ ''\<newline>'')
     (ad_details_prompt fi request)"
  "sublist (''        - Duration of Ad: '' @
      py_or (AdStoryboardRequest.duration_of_ad request) ''Not specified'' @ ''\<newline>'')
     (ad_details_prompt fi request)"
  "sublist (''        - Tone: '' @
      py_or (AdStoryboardRequest.tone request) ''Not specified'' @ ''\<newline>'')
     (ad_details_prompt fi request)"
  "sublist (''        - Purpose: '' @
      py_or (AdStoryboardRequest.purpose request) ''Not specified'' @ ''\<newline>'')
     (ad_details_prompt fi request)"
  "sublist (''        - Country: '' @
      py_or (AdStoryboardRequest.country request) ''Not specified'' @ ''\<newline>'')
     (ad_details_prompt fi request)"
  "sublist (''        - Number of Scenes: '' @
      str_of_optional_int (AdStoryboardRequest.number_of_scenes request) @ ''\<newline>'')
     (ad_details_prompt fi request)"
  unfolding ad_details_prompt_def
  by (rule field_line, simp add: sublist_Cons_right)+

section \<open>Claims\<close>

text \<open>
  C1. Claimed: the scene expansion stage overwrites the parsed scene number with the loop
  index, so the numbers returned are 1..N. The code does not: \<^const>\<open>generate_single_scene\<close>
  returns the parsed record untouched on both paths. With a capability whose every answer
  parses to a record numbered 7 and a scene count of 2, both returned records carry the
  number 7.
\<close>

theorem generate_scenes_keeps_parsed_scene_number:
  "fst (generate_scenes always_ok example_scene_parser example_ad_details None []) =
     Inr [example_scene_output, example_scene_output] \<and>
   map SceneOutput.scene_number [example_scene_output, example_scene_output] = [7, 7]"
  by (simp add: generate_scenes_def example_ad_details_scenes upto_1_2 select_input_scene_def
      always_ok_scene Let_def example_scene_output_def)

text \<open>
  C2. Claimed: the prompts composed for the text-to-image and image-to-video sub-steps
  contain the verbatim override of the originating scene input. The code looks the
  override up on the scene output, which has no such field, so the section is always
  empty. For the scene output generated from an input with the override
  \<open>character waves at camera in slow motion\<close>: both priority sections are empty, the
  prompt sent is the composed one, and neither composed prompt contains the override.
\<close>

theorem prompt_derivation_omits_override:
  "fst (generate_single_scene always_ok example_scene_parser 1 scene_with_override
          example_ad_details []) = Inr example_scene_output \<and>
   single_txt2img_priority_instructions example_scene_output = [] \<and>
   single_img2vid_priority_instructions example_scene_output = [] \<and>
   snd (generate_single_txt2img_prompt always_ok example_txt2img_parser example_scene_output []) =
     [single_txt2img_prompt [] example_scene_output] \<and>
   \<not> sublist ''character waves at camera in slow motion''
       (single_txt2img_prompt [] example_scene_output) \<and>
   \<not> sublist ''character waves at camera in slow motion''
       (single_img2vid_prompt [] example_scene_output example_txt2img_prompt)"
proof -
  have generated: "fst (generate_single_scene always_ok example_scene_parser 1 scene_with_override
          example_ad_details []) = Inr example_scene_output"
    by (simp add: always_ok_scene)
  have empty: "single_txt2img_priority_instructions example_scene_output = []"
    "single_img2vid_priority_instructions example_scene_output = []"
    by (simp_all add: single_txt2img_priority_instructions_def
        single_img2vid_priority_instructions_def SceneOutput_getattr_user_recommendation_def
        truthy_def)
  have sent: "snd (generate_single_txt2img_prompt always_ok example_txt2img_parser
                     example_scene_output []) = [single_txt2img_prompt [] example_scene_output]"
    by (simp add: generate_single_txt2img_prompt_def generate_content_simp always_ok_def
        example_txt2img_parser_def Let_def parse_response_text_simps)
  from generated empty sent example_scene_no_override_in_txt2img
    example_scene_no_override_in_img2vid
  show ?thesis by simp
qed

text \<open>
  C3. At each of the four call sites, with \<open>P\<close> the composed prompt, \<open>R\<close> the retry
  prompt built from it, and \<^const>\<open>parse_response_text\<close> the attempt to read a response's
  text and parse it (failing when the read raises or when the parser raises): every call
  sends \<open>P\<close> alone or \<open>P\<close> then \<open>R\<close>, so one or two invocations and never a third.
  If the first attempt succeeds, the result is the parsed record and exactly \<open>P\<close> was sent.
  If the first attempt fails, for either reason, and the second succeeds, the result is
  the second parsed record and exactly \<open>P\<close>, \<open>R\<close> were sent. If both attempts fail, the
  result is the exception of the second attempt and exactly \<open>P\<close>, \<open>R\<close> were sent: no
  fallback value. The two prompt-derivation sites return the parsed record with its scene
  number set from the scene.
\<close>

theorem structured_generation_invocations:
  fixes model :: completion
  shows
  "(let P = ad_details_prompt (get_format_instructions pa) request;
        R = ad_details_retry_prompt P request;
        result = generate_ad_details model pa request sent
    in (snd result = sent @ [P] \<or> snd result = sent @ [P, R]) \<and>
       (model sent P = Inr first \<and> parse_response_text pa first = Inr ra \<longrightarrow>
          result = (Inr ra, sent @ [P])) \<and>
       (model sent P = Inr first \<and> parse_response_text pa first = Inl e1 \<and>
        model (sent @ [P]) R = Inr second \<and> parse_response_text pa second = Inr ra \<longrightarrow>
          result = (Inr ra, sent @ [P, R])) \<and>
       (model sent P = Inr first \<and> parse_response_text pa first = Inl e1 \<and>
        model (sent @ [P]) R = Inr second \<and> parse_response_text pa second = Inl e2 \<longrightarrow>
          result = (Inl e2, sent @ [P, R])))
   \<and>
   (let P = single_scene_prompt (get_format_instructions ps) i input_scene ad_details;
        R = single_scene_retry_prompt P i;
        result = generate_single_scene model ps i input_scene ad_details sent
    in (snd result = sent @ [P] \<or> snd result = sent @ [P, R]) \<and>
       (model sent P = Inr first \<and> parse_response_text ps first = Inr rs \<longrightarrow>
          result = (Inr rs, sent @ [P])) \<and>
       (model sent P = Inr first \<and> parse_response_text ps first = Inl e1 \<and>
        model (sent @ [P]) R = Inr second \<and> parse_response_text ps second = Inr rs \<longrightarrow>
          result = (Inr rs, sent @ [P, R])) \<and>
       (model sent P = Inr first \<and> parse_response_text ps first = Inl e1 \<and>
        model (sent @ [P]) R = Inr second \<and> parse_response_text ps second = Inl e2 \<longrightarrow>
          result = (Inl e2, sent @ [P, R])))
   \<and>
   (let P = single_txt2img_prompt (get_format_instructions pt) scene;
        R = single_txt2img_retry_prompt P scene;
        result = generate_single_txt2img_prompt model pt scene sent
    in (snd result = sent @ [P] \<or> snd result = sent @ [P, R]) \<and>
       (model sent P = Inr first \<and> parse_response_text pt first = Inr rt \<longrightarrow>
          result = (Inr (rt\<lparr>TextToImagePrompt.scene_number := SceneOutput.scene_number scene\<rparr>), sent @ [P])) \<and>
       (model sent P = Inr first \<and> parse_response_text pt first = Inl e1 \<and>
        model (sent @ [P]) R = Inr second \<and> parse_response_text pt second = Inr rt \<longrightarrow>
          result = (Inr (rt\<lparr>TextToImagePrompt.scene_number := SceneOutput.scene_number scene\<rparr>), sent @ [P, R])) \<and>
       (model sent P = Inr first \<and> parse_response_text pt first = Inl e1 \<and>
        model (sent @ [P]) R = Inr second \<and> parse_response_text pt second = Inl e2 \<longrightarrow>
          result = (Inl e2, sent @ [P, R])))
   \<and>
   (let P = single_img2vid_prompt (get_format_instructions pv) scene txt2img_prompt;
        R = single_img2vid_retry_prompt P scene;
        result = generate_single_img2vid_prompt model pv scene txt2img_prompt sent
    in (snd result = sent @ [P] \<or> snd result = sent @ [P, R]) \<and>
       (model sent P = Inr first \<and> parse_response_text pv first = Inr rv \<longrightarrow>
          result = (Inr (rv\<lparr>ImageToVideoPrompt.scene_number := SceneOutput.scene_number scene\<rparr>), sent @ [P])) \<and>
       (model sent P = Inr first \<and> parse_response_text pv first = Inl e1 \<and>
        model (sent @ [P]) R = Inr second \<and> parse_response_text pv second = Inr rv \<longrightarrow>
          result = (Inr (rv\<lparr>ImageToVideoPrompt.scene_number := SceneOutput.scene_number scene\<rparr>), sent @ [P, R])) \<and>
       (model sent P = Inr first \<and> parse_response_text pv first = Inl e1 \<and>
        model (sent @ [P]) R = Inr second \<and> parse_response_text pv second = Inl e2 \<longrightarrow>
          result = (Inl e2, sent @ [P, R])))"
  by (intro conjI;
      simp add: Let_def generate_ad_details_unfold generate_single_scene_unfold
        generate_single_txt2img_prompt_unfold generate_single_img2vid_prompt_unfold
        split: sum.splits)

text \<open>
  The cases at the four sites, on the stubs: one that answers \<open>ok\<close> at once (one
  invocation), one that answers \<open>bad\<close> first and \<open>ok\<close> to the retry, one whose first
  response has no readable text and whose second reads \<open>ok\<close> (two invocations, the second
  record returned), and one that always answers \<open>bad\<close> (two invocations, the parser's
  exception).
\<close>

theorem structured_generation_invocations_witness:
  "generate_ad_details always_ok example_ad_parser example_request [] =
     (Inr example_ad_details, [ad_details_prompt [] example_request]) \<and>
   generate_ad_details ok_on_retry example_ad_parser example_request [] =
     (Inr example_ad_details,
      [ad_details_prompt [] example_request,
       ad_details_retry_prompt (ad_details_prompt [] example_request) example_request]) \<and>
   generate_ad_details unreadable_then_ok example_ad_parser example_request [] =
     (Inr example_ad_details,
      [ad_details_prompt [] example_request,
       ad_details_retry_prompt (ad_details_prompt [] example_request) example_request]) \<and>
   generate_ad_details never_ok example_ad_parser example_request [] =
     (Inl OutputParserException,
      [ad_details_prompt [] example_request,
       ad_details_retry_prompt (ad_details_prompt [] example_request) example_request]) \<and>
   generate_single_scene always_ok example_scene_parser 1 scene_with_override example_ad_details [] =
     (Inr example_scene_output, [single_scene_prompt [] 1 scene_with_override example_ad_details]) \<and>
   generate_single_scene ok_on_retry example_scene_parser 1 scene_with_override example_ad_details [] =
     (Inr example_scene_output,
      [single_scene_prompt [] 1 scene_with_override example_ad_details,
       single_scene_retry_prompt
         (single_scene_prompt [] 1 scene_with_override example_ad_details) 1]) \<and>
   generate_single_scene unreadable_then_ok example_scene_parser 1 scene_with_override example_ad_details [] =
     (Inr example_scene_output,
      [single_scene_prompt [] 1 scene_with_override example_ad_details,
       single_scene_retry_prompt
         (single_scene_prompt [] 1 scene_with_override example_ad_details) 1]) \<and>
   generate_single_scene never_ok example_scene_parser 1 scene_with_override example_ad_details [] =
     (Inl OutputParserException,
      [single_scene_prompt [] 1 scene_with_override example_ad_details,
       single_scene_retry_prompt
         (single_scene_prompt [] 1 scene_with_override example_ad_details) 1]) \<and>
   generate_single_txt2img_prompt always_ok example_txt2img_parser example_scene_output [] =
     (Inr (example_txt2img_prompt\<lparr>TextToImagePrompt.scene_number := 7\<rparr>), [single_txt2img_prompt [] example_scene_output]) \<and>
   generate_single_txt2img_prompt ok_on_retry example_txt2img_parser example_scene_output [] =
     (Inr (example_txt2img_prompt\<lparr>TextToImagePrompt.scene_number := 7\<rparr>),
      [single_txt2img_prompt [] example_scene_output,
       single_txt2img_retry_prompt (single_txt2img_prompt [] example_scene_output)
         example_scene_output]) \<and>
   generate_single_txt2img_prompt unreadable_then_ok example_txt2img_parser example_scene_output [] =
     (Inr (example_txt2img_prompt\<lparr>TextToImagePrompt.scene_number := 7\<rparr>),
      [single_txt2img_prompt [] example_scene_output,
       single_txt2img_retry_prompt (single_txt2img_prompt [] example_scene_output)
         example_scene_output]) \<and>
   generate_single_txt2img_prompt never_ok example_txt2img_parser example_scene_output [] =
     (Inl OutputParserException,
      [single_txt2img_prompt [] example_scene_output,
       single_txt2img_retry_prompt (single_txt2img_prompt [] example_scene_output)
         example_scene_output]) \<and>
   generate_single_img2vid_prompt always_ok example_img2vid_parser example_scene_output
       example_txt2img_prompt [] =
     (Inr (example_img2vid_prompt\<lparr>ImageToVideoPrompt.scene_number := 7\<rparr>), [single_img2vid_prompt [] example_scene_output example_txt2img_prompt]) \<and>
   generate_single_img2vid_prompt ok_on_retry example_img2vid_parser example_scene_output
       example_txt2img_prompt [] =
     (Inr (example_img2vid_prompt\<lparr>ImageToVideoPrompt.scene_number := 7\<rparr>),
      [single_img2vid_prompt [] example_scene_output example_txt2img_prompt,
       single_img2vid_retry_prompt
         (single_img2vid_prompt [] example_scene_output example_txt2img_prompt)
         example_scene_output]) \<and>
   generate_single_img2vid_prompt unreadable_then_ok example_img2vid_parser example_scene_output
       example_txt2img_prompt [] =
     (Inr (example_img2vid_prompt\<lparr>ImageToVideoPrompt.scene_number := 7\<rparr>),
      [single_img2vid_prompt [] example_scene_output example_txt2img_prompt,
       single_img2vid_retry_prompt
         (single_img2vid_prompt [] example_scene_output example_txt2img_prompt)
         example_scene_output]) \<and>
   generate_single_img2vid_prompt never_ok example_img2vid_parser example_scene_output
       example_txt2img_prompt [] =
     (Inl OutputParserException,
      [single_img2vid_prompt [] example_scene_output example_txt2img_prompt,
       single_img2vid_retry_prompt
         (single_img2vid_prompt [] example_scene_output example_txt2img_prompt)
         example_scene_output])"
proof -
  have attempts:
    "parse_response_text example_ad_parser (Inr ''ok'') = Inr example_ad_details"
    "parse_response_text example_ad_parser (Inr ''bad'') = Inl OutputParserException"
    "parse_response_text example_ad_parser (Inl ResponseTextError) = Inl ResponseTextError"
    "parse_response_text example_scene_parser (Inr ''ok'') = Inr example_scene_output"
    "parse_response_text example_scene_parser (Inr ''bad'') = Inl OutputParserException"
    "parse_response_text example_scene_parser (Inl ResponseTextError) = Inl ResponseTextError"
    "parse_response_text example_txt2img_parser (Inr ''ok'') = Inr example_txt2img_prompt"
    "parse_response_text example_txt2img_parser (Inr ''bad'') = Inl OutputParserException"
    "parse_response_text example_txt2img_parser (Inl ResponseTextError) = Inl ResponseTextError"
    "parse_response_text example_img2vid_parser (Inr ''ok'') = Inr example_img2vid_prompt"
    "parse_response_text example_img2vid_parser (Inr ''bad'') = Inl OutputParserException"
    "parse_response_text example_img2vid_parser (Inl ResponseTextError) = Inl ResponseTextError"
    by (simp_all add: parse_response_text_simps example_ad_parser_def example_scene_parser_def
        example_txt2img_parser_def example_img2vid_parser_def)
  have instructions:
    "get_format_instructions example_ad_parser = []"
    "get_format_instructions example_scene_parser = []"
    "get_format_instructions example_txt2img_parser = []"
    "get_format_instructions example_img2vid_parser = []"
    by (simp_all add: example_ad_parser_def example_scene_parser_def example_txt2img_parser_def
        example_img2vid_parser_def)
  have number: "SceneOutput.scene_number example_scene_output = 7"
    by (simp add: example_scene_output_def)
  note inst = structured_generation_invocations
    [where sent = "[]" and pa = example_ad_parser and request = example_request
       and ra = example_ad_details and ps = example_scene_parser and i = 1
       and input_scene = scene_with_override and ad_details = example_ad_details
       and rs = example_scene_output and pt = example_txt2img_parser
       and scene = example_scene_output and rt = example_txt2img_prompt
       and pv = example_img2vid_parser and txt2img_prompt = example_txt2img_prompt
       and rv = example_img2vid_prompt]
  from inst [where model = always_ok and first = "Inr ''ok''"]
       inst [where model = ok_on_retry and first = "Inr ''bad''" and second = "Inr ''ok''"
               and ?e1.0 = OutputParserException]
       inst [where model = unreadable_then_ok and first = "Inl ResponseTextError"
               and second = "Inr ''ok''" and ?e1.0 = ResponseTextError]
       inst [where model = never_ok and first = "Inr ''bad''" and second = "Inr ''bad''"
               and ?e1.0 = OutputParserException and ?e2.0 = OutputParserException]
  show ?thesis
    by (simp add: Let_def attempts instructions number always_ok_def ok_on_retry_def
        unreadable_then_ok_def never_ok_def)
qed

text \<open>
  C4. With \<open>N\<close> the scene count of the ad details and \<open>xs\<close> the supplied scene inputs
  (none when the argument is \<^verbatim>\<open>None\<close>): whenever \<^const>\<open>generate_scenes\<close> returns,
  it returns exactly \<open>N\<close> scene outputs (none for \<open>N \<le> 0\<close>), and for every index \<open>i\<close>
  in \<open>1..N\<close> the output at position \<open>i\<close> is what \<^const>\<open>generate_single_scene\<close>
  returned for index \<open>i\<close> on the \<open>i\<close>-th supplied input when \<open>i \<le> length xs\<close> and on
  the empty scene otherwise. It does return when every per-scene call succeeds; no
  shortage of inputs makes it fail.
\<close>

theorem generate_scenes_count_authoritative:
  fixes input_scenes :: "Scene list option"
  assumes xs: "xs = (case input_scenes of None \<Rightarrow> [] | Some l \<Rightarrow> l)"
    and N: "AdDetails.number_of_scenes ad_details = N"
  shows
    "(\<forall>ys sent'. generate_scenes model p ad_details input_scenes sent = (Inr ys, sent') \<longrightarrow>
        length ys = nat N \<and>
        (\<forall>i \<in> {1..N}. \<exists>h h'.
           generate_single_scene model p i
             (if i \<le> int (length xs) then xs ! nat (i - 1) else Scene_default) ad_details h
           = (Inr (ys ! nat (i - 1)), h')))
     \<and>
     ((\<forall>i \<in> {1..N}. \<forall>h. \<exists>r h'.
           generate_single_scene model p i
             (if i \<le> int (length xs) then xs ! nat (i - 1) else Scene_default) ad_details h
           = (Inr r, h')) \<longrightarrow>
      (\<exists>ys sent'. generate_scenes model p ad_details input_scenes sent = (Inr ys, sent')))"
  using generate_scenes_elements [OF xs N] generate_scenes_returns [OF xs N]
  by blast

text \<open>
  Two scenes requested, one input supplied: two outputs, the first generated from the
  supplied input, the second from the empty scene.
\<close>

theorem generate_scenes_count_authoritative_witness:
  "generate_scenes always_ok example_scene_parser example_ad_details (Some [scene_with_override]) [] =
     (Inr [example_scene_output, example_scene_output],
      [single_scene_prompt [] 1 scene_with_override example_ad_details,
       single_scene_prompt [] 2 Scene_default example_ad_details]) \<and>
   length [example_scene_output, example_scene_output] =
     nat (AdDetails.number_of_scenes example_ad_details) \<and>
   (\<exists>h h'. generate_single_scene always_ok example_scene_parser 1 scene_with_override
              example_ad_details h = (Inr ([example_scene_output, example_scene_output] ! 0), h')) \<and>
   (\<exists>h h'. generate_single_scene always_ok example_scene_parser 2 Scene_default
              example_ad_details h = (Inr ([example_scene_output, example_scene_output] ! 1), h'))"
proof -
  note inst = generate_scenes_count_authoritative
    [where input_scenes = "Some [scene_with_override]" and xs = "[scene_with_override]"
       and ad_details = example_ad_details and N = 2 and model = always_ok
       and p = example_scene_parser and sent = "[]"]
  have ok: "\<forall>i \<in> {1..2}. \<forall>h. \<exists>r h'.
           generate_single_scene always_ok example_scene_parser i
             (if i \<le> int (length [scene_with_override]) then [scene_with_override] ! nat (i - 1)
              else Scene_default) example_ad_details h = (Inr r, h')"
    by (simp add: always_ok_scene)
  from inst ok example_run_always_ok
  have el: "\<forall>i \<in> {1..2}. \<exists>h h'.
           generate_single_scene always_ok example_scene_parser i
             (if i \<le> int (length [scene_with_override]) then [scene_with_override] ! nat (i - 1)
              else Scene_default) example_ad_details h
           = (Inr ([example_scene_output, example_scene_output] ! nat (i - 1)), h')"
    by (simp add: example_ad_details_scenes)
  from el [rule_format, of 1] el [rule_format, of 2] example_run_always_ok
  show ?thesis by (simp add: example_ad_details_scenes)
qed

text \<open>
  C5. Claimed: the ad details prompt enumerates every request field and renders
  \<open>Not specified\<close> for every absent one, the scene count included. The scene count is
  interpolated as it is: for the example request, whose scene count is absent, the text
  \<open>Number of Scenes: Not specified\<close> does not occur in the prompt and
  \<open>Number of Scenes: None\<close> does. The list of scenes is not rendered at all: giving the
  example request a scene leaves the prompt unchanged.
\<close>

theorem ad_details_prompt_scene_count_counterexample:
  "AdStoryboardRequest.number_of_scenes example_request = None \<and>
   \<not> sublist ''Number of Scenes: Not specified'' (ad_details_prompt [] example_request) \<and>
   sublist ''        - Number of Scenes: None\<newline>'' (ad_details_prompt [] example_request) \<and>
   ad_details_prompt []
     (example_request\<lparr>AdStoryboardRequest.scenes := Some [scene_with_override]\<rparr>) =
   ad_details_prompt [] example_request"
proof -
  have "ad_details_prompt []
          (example_request\<lparr>AdStoryboardRequest.scenes := Some [scene_with_override]\<rparr>) =
        ad_details_prompt [] example_request"
    by (simp add: ad_details_prompt_def)
  with ad_details_prompt_lines(10) [where fi = "[]" and request = example_request]
    example_request_no_scene_count_sentinel
  show ?thesis by (simp add: example_request_fields str_of_optional_int_def)
qed

text \<open>
  C5, as amended. The prompt has one line for each of the nine text fields of the request,
  showing the field's value, or \<open>Not specified\<close> when the value is absent or empty; it has
  a line for the scene count showing the number in decimal when there is one; and it does
  not depend on the request's list of scenes.
\<close>

theorem ad_details_prompt_renders_fields:
  "(let shown = (\<lambda>v. case v of None \<Rightarrow> ''Not specified''
                       | Some s \<Rightarrow> if s = [] then ''Not specified'' else s);
        prompt = ad_details_prompt fi request
    in sublist (''        - Product Name: '' @
                  shown (AdStoryboardRequest.product_name request) @ ''\<newline>'') prompt \<and>
       sublist (''        - Product Description: '' @
                  shown (AdStoryboardRequest.product_description request) @ ''\<newline>'') prompt \<and>
       sublist (''        - Target Audience: '' @
                  shown (AdStoryboardRequest.target_audience request) @ ''\<newline>'') prompt \<and>
       sublist (''        - Selling Point: '' @
                  shown (AdStoryboardRequest.selling_point request) @ ''\<newline>'') prompt \<and>
       sublist (''        - Key Message: '' @
                  shown (AdStoryboardRequest.key_message request) @ ''\<newline>'') prompt \<and>
       sublist (''        - Duration of Ad: '' @
                  shown (AdStoryboardRequest.duration_of_ad request) @ ''\<newline>'') prompt \<and>
       sublist (''        - Tone: '' @
                  shown (AdStoryboardRequest.tone request) @ ''\<newline>'') prompt \<and>
       sublist (''        - Purpose: '' @
                  shown (AdStoryboardRequest.purpose request) @ ''\<newline>'') prompt \<and>
       sublist (''        - Country: '' @
                  shown (AdStoryboardRequest.country request) @ ''\<newline>'') prompt \<and>
       (\<forall>n. AdStoryboardRequest.number_of_scenes request = Some n \<longrightarrow>
          sublist (''        - Number of Scenes: '' @ str_int n @ ''\<newline>'') prompt) \<and>
       ad_details_prompt fi (request\<lparr>AdStoryboardRequest.scenes := other_scenes\<rparr>) = prompt)"
proof -
  have shown: "\<And>v. (case v of None \<Rightarrow> ''Not specified''
                       | Some s \<Rightarrow> if s = [] then ''Not specified'' else s) =
                 py_or v ''Not specified''"
    by (simp add: py_or_def)
  have count: "\<forall>n. AdStoryboardRequest.number_of_scenes request = Some n \<longrightarrow>
          sublist (''        - Number of Scenes: '' @ str_int n @ ''\<newline>'')
            (ad_details_prompt fi request)"
  proof (intro allI impI)
    fix n
    assume "AdStoryboardRequest.number_of_scenes request = Some n"
    with ad_details_prompt_lines(10) [where fi = fi and request = request]
    show "sublist (''        - Number of Scenes: '' @ str_int n @ ''\<newline>'')
            (ad_details_prompt fi request)"
      by (simp add: str_of_optional_int_def)
  qed
  have indep: "ad_details_prompt fi (request\<lparr>AdStoryboardRequest.scenes := other_scenes\<rparr>) =
               ad_details_prompt fi request"
    by (simp add: ad_details_prompt_def)
  show ?thesis
    unfolding Let_def shown indep
    by (intro conjI ad_details_prompt_lines(1-9) count refl)
qed

text \<open>
  The example request has a product name and no country; with a scene count of 2 the
  count's line shows \<open>2\<close>.
\<close>

theorem ad_details_prompt_renders_fields_witness:
  "AdStoryboardRequest.number_of_scenes
     (example_request\<lparr>AdStoryboardRequest.number_of_scenes := Some 2\<rparr>) = Some 2 \<and>
   sublist ''        - Product Name: QuietBeats\<newline>''
     (ad_details_prompt []
        (example_request\<lparr>AdStoryboardRequest.number_of_scenes := Some 2\<rparr>)) \<and>
   sublist ''        - Country: Not specified\<newline>''
     (ad_details_prompt []
        (example_request\<lparr>AdStoryboardRequest.number_of_scenes := Some 2\<rparr>)) \<and>
   sublist ''        - Number of Scenes: 2\<newline>''
     (ad_details_prompt []
        (example_request\<lparr>AdStoryboardRequest.number_of_scenes := Some 2\<rparr>))"
proof -
  have two: "str_int 2 = ''2''"
    by (simp add: str_int_def digit_char_def)
  from ad_details_prompt_renders_fields
    [where fi = "[]"
       and request = "example_request\<lparr>AdStoryboardRequest.number_of_scenes := Some 2\<rparr>"]
  show ?thesis by (simp add: Let_def example_request_fields two)
qed

text \<open>
  C6. When the scene input carries a non-empty override \<open>r\<close>, every prompt that
  \<^const>\<open>generate_single_scene\<close> sends to the completion capability (the first prompt, and
  the retry prompt when there is one; at least one is sent) contains the section header
  \<open>CRITICAL USER SCENE DESCRIPTION - MUST INCLUDE VERBATIM:\<close>, then \<open>r\<close> itself,
  character for character, then the \<open>STRICT RULES:\<close> that follow it.
\<close>

theorem scene_override_sent_verbatim:
  assumes "Scene.user_recommendation input_scene = Some r" and "r \<noteq> []"
  shows "\<exists>new. snd (generate_single_scene model p i input_scene ad_details sent) = sent @ new \<and>
           new \<noteq> [] \<and>
           (\<forall>q \<in> set new.
              sublist (''        CRITICAL USER SCENE DESCRIPTION - MUST INCLUDE VERBATIM:\<newline>        '' @ r @
                       ''\<newline>\<newline>        STRICT RULES:\<newline>'') q)"
proof -
  let ?B = "''        CRITICAL USER SCENE DESCRIPTION - MUST INCLUDE VERBATIM:\<newline>        '' @ r @
            ''\<newline>\<newline>        STRICT RULES:\<newline>''"
  let ?P = "single_scene_prompt (get_format_instructions p) i input_scene ad_details"
  let ?R = "single_scene_retry_prompt ?P i"
  have inP: "sublist ?B ?P"
    using scene_priority_block [OF assms] scene_prompt_has_priority
    by (rule sublist_chain)
  have inR: "sublist ?B ?R"
    using inP scene_retry_has_prompt by (rule sublist_chain)
  from generate_single_scene_history [of model p i input_scene ad_details sent]
  show ?thesis
  proof
    assume "snd (generate_single_scene model p i input_scene ad_details sent) = sent @ [?P]"
    with inP show ?thesis by simp
  next
    assume "snd (generate_single_scene model p i input_scene ad_details sent) = sent @ [?P, ?R]"
    with inP inR show ?thesis by simp
  qed
qed

text \<open>
  On the stub that needs the retry, both prompts sent for the scene with the override
  \<open>character waves at camera in slow motion\<close> contain the section with that text.
\<close>

theorem scene_override_sent_verbatim_witness:
  "Scene.user_recommendation scene_with_override = Some ''character waves at camera in slow motion'' \<and>
   ''character waves at camera in slow motion'' \<noteq> [] \<and>
   snd (generate_single_scene ok_on_retry example_scene_parser 1 scene_with_override
          example_ad_details []) =
     [single_scene_prompt [] 1 scene_with_override example_ad_details,
      single_scene_retry_prompt (single_scene_prompt [] 1 scene_with_override example_ad_details) 1] \<and>
   sublist ''        CRITICAL USER SCENE DESCRIPTION - MUST INCLUDE VERBATIM:\<newline>        character waves at camera in slow motion\<newline>\<newline>        STRICT RULES:\<newline>''
     (single_scene_prompt [] 1 scene_with_override example_ad_details) \<and>
   sublist ''        CRITICAL USER SCENE DESCRIPTION - MUST INCLUDE VERBATIM:\<newline>        character waves at camera in slow motion\<newline>\<newline>        STRICT RULES:\<newline>''
     (single_scene_retry_prompt (single_scene_prompt [] 1 scene_with_override example_ad_details) 1)"
proof -
  have rec: "Scene.user_recommendation scene_with_override =
               Some ''character waves at camera in slow motion''"
    by (simp add: scene_with_override_def)
  have ne: "''character waves at camera in slow motion'' \<noteq> []" by simp
  have run: "snd (generate_single_scene ok_on_retry example_scene_parser 1 scene_with_override
          example_ad_details []) =
     [single_scene_prompt [] 1 scene_with_override example_ad_details,
      single_scene_retry_prompt (single_scene_prompt [] 1 scene_with_override example_ad_details) 1]"
    by (simp add: generate_single_scene_unfold ok_on_retry_def example_scene_parser_def Let_def
        parse_response_text_simps)
  from scene_override_sent_verbatim [OF rec ne, of ok_on_retry example_scene_parser 1
         example_ad_details "[]"] run rec
  show ?thesis by simp
qed

text \<open>
  C7. For scene output and text-to-image prompt lists of equal length \<open>N\<close>: whenever
  \<^const>\<open>generate_image_to_video_prompts\<close> returns, it returns \<open>N\<close> prompts and the prompt
  at each index carries the scene number of the scene output at that index, whichever
  path (first attempt or retry) produced it; and it does return when every per-scene call
  succeeds.
\<close>

theorem img2vid_scene_numbers_forced:
  assumes "length scene_outputs = length txt2img_prompts"
  shows
    "(\<forall>ys sent'.
        generate_image_to_video_prompts model p scene_outputs txt2img_prompts sent = (Inr ys, sent') \<longrightarrow>
        length ys = length scene_outputs \<and>
        (\<forall>i < length scene_outputs.
           ImageToVideoPrompt.scene_number (ys ! i) = SceneOutput.scene_number (scene_outputs ! i)))
     \<and>
     ((\<forall>i < length scene_outputs. \<forall>h. \<exists>r h'.
          generate_single_img2vid_prompt model p (scene_outputs ! i) (txt2img_prompts ! i) h =
            (Inr r, h')) \<longrightarrow>
      (\<exists>ys sent'.
          generate_image_to_video_prompts model p scene_outputs txt2img_prompts sent = (Inr ys, sent')))"
proof -
  let ?zs = "zip scene_outputs txt2img_prompts"
  have A: "length ys = length scene_outputs \<and>
        (\<forall>i < length scene_outputs.
           ImageToVideoPrompt.scene_number (ys ! i) = SceneOutput.scene_number (scene_outputs ! i))"
    if "generate_image_to_video_prompts model p scene_outputs txt2img_prompts sent = (Inr ys, sent')"
    for ys sent'
  proof -
    from that have "generate_image_to_video_prompts_loop model p ?zs [] sent = (Inr ys, sent')"
      by (simp add: generate_image_to_video_prompts_def)
    from img2vid_loop_result [OF this] assms show ?thesis by simp
  qed
  have B: "\<exists>ys sent'.
          generate_image_to_video_prompts model p scene_outputs txt2img_prompts sent = (Inr ys, sent')"
    if ok: "\<forall>i < length scene_outputs. \<forall>h. \<exists>r h'.
          generate_single_img2vid_prompt model p (scene_outputs ! i) (txt2img_prompts ! i) h =
            (Inr r, h')"
  proof -
    have "\<forall>(scene, t) \<in> set ?zs. \<forall>h. \<exists>r h'.
             generate_single_img2vid_prompt model p scene t h = (Inr r, h')"
      using ok assms by (auto simp: set_zip)
    from img2vid_loop_success [OF this]
    show ?thesis by (simp add: generate_image_to_video_prompts_def)
  qed
  from A B show ?thesis by blast
qed

text \<open>
  Two scenes numbered 7 and 2, and a capability whose answer parses to a prompt numbered 5:
  the two prompts returned are numbered 7 and 2.
\<close>

theorem img2vid_scene_numbers_forced_witness:
  "length [example_scene_output, example_scene_output\<lparr>SceneOutput.scene_number := 2\<rparr>] =
     length [example_txt2img_prompt, example_txt2img_prompt] \<and>
   fst (generate_image_to_video_prompts always_ok example_img2vid_parser
      [example_scene_output, example_scene_output\<lparr>SceneOutput.scene_number := 2\<rparr>]
      [example_txt2img_prompt, example_txt2img_prompt] []) =
     Inr [example_img2vid_prompt\<lparr>ImageToVideoPrompt.scene_number := 7\<rparr>,
          example_img2vid_prompt\<lparr>ImageToVideoPrompt.scene_number := 2\<rparr>] \<and>
   ImageToVideoPrompt.scene_number (example_img2vid_prompt\<lparr>ImageToVideoPrompt.scene_number := 7\<rparr>) =
     SceneOutput.scene_number example_scene_output \<and>
   ImageToVideoPrompt.scene_number (example_img2vid_prompt\<lparr>ImageToVideoPrompt.scene_number := 2\<rparr>) =
     SceneOutput.scene_number (example_scene_output\<lparr>SceneOutput.scene_number := 2\<rparr>)"
proof -
  let ?scenes = "[example_scene_output, example_scene_output\<lparr>SceneOutput.scene_number := 2\<rparr>]"
  let ?prompts = "[example_txt2img_prompt, example_txt2img_prompt]"
  let ?ys = "[example_img2vid_prompt\<lparr>ImageToVideoPrompt.scene_number := 7\<rparr>,
              example_img2vid_prompt\<lparr>ImageToVideoPrompt.scene_number := 2\<rparr>]"
  have len: "length ?scenes = length ?prompts" by simp
  have number: "SceneOutput.scene_number example_scene_output = 7"
    by (simp add: example_scene_output_def)
  have run: "generate_image_to_video_prompts always_ok example_img2vid_parser ?scenes ?prompts [] =
     (Inr ?ys,
      [single_img2vid_prompt [] example_scene_output example_txt2img_prompt,
       single_img2vid_prompt [] (example_scene_output\<lparr>SceneOutput.scene_number := 2\<rparr>)
         example_txt2img_prompt])"
    by (simp add: generate_image_to_video_prompts_def always_ok_img2vid number)
  from img2vid_scene_numbers_forced [OF len, of always_ok example_img2vid_parser "[]"] run
  have "\<forall>i < 2. ImageToVideoPrompt.scene_number (?ys ! i) = SceneOutput.scene_number (?scenes ! i)"
    by simp
  from this [rule_format, of 0] this [rule_format, of 1] run
  show ?thesis by simp
qed

text \<open>
  C8. When a text parses against the text-to-image shape, a missing \<open>style_type\<close> key
  gives the record the style type \<open>Photorealistic CGI\<close> and a missing \<open>style_reference\<close>
  key gives it the style reference \<open>Gregory Crewdson\<close>; the same holds for the
  image-to-video shape.
\<close>

theorem style_defaults_after_parsing:
  "(pydantic_parse json_loads (TextToImagePrompt_validate c) response_text = Some rt \<and>
    json_loads response_text = Some obj \<longrightarrow>
      (obj ''style_type'' = None \<longrightarrow> TextToImagePrompt.style_type rt = ''Photorealistic CGI'') \<and>
      (obj ''style_reference'' = None \<longrightarrow>
         TextToImagePrompt.style_reference rt = ''Gregory Crewdson''))
   \<and>
   (pydantic_parse json_loads (ImageToVideoPrompt_validate c) response_text = Some rv \<and>
    json_loads response_text = Some obj \<longrightarrow>
      (obj ''style_type'' = None \<longrightarrow> ImageToVideoPrompt.style_type rv = ''Photorealistic CGI'') \<and>
      (obj ''style_reference'' = None \<longrightarrow>
         ImageToVideoPrompt.style_reference rv = ''Gregory Crewdson''))"
  by (auto simp: pydantic_parse_def TextToImagePrompt_validate_def ImageToVideoPrompt_validate_def
      required_field_def default_field_def split: option.splits Option.bind_splits)

text \<open>
  The example text has neither style key; it parses against both shapes, and both records
  carry the two defaults.
\<close>

theorem style_defaults_after_parsing_witness:
  "example_json_loads example_json_text = Some example_json_object \<and>
   example_json_object ''style_type'' = None \<and>
   example_json_object ''style_reference'' = None \<and>
   pydantic_parse example_json_loads (TextToImagePrompt_validate example_converters)
       example_json_text =
     Some \<lparr> TextToImagePrompt.scene_number = 3, TextToImagePrompt.characters = [],
            TextToImagePrompt.action = ''waves'',
            TextToImagePrompt.environment_location = ''train'',
            TextToImagePrompt.environment_lighting = ''dim'',
            TextToImagePrompt.environment_details = ''fog'',
            TextToImagePrompt.style_type = ''Photorealistic CGI'',
            TextToImagePrompt.style_technique = ''cel'',
            TextToImagePrompt.style_reference = ''Gregory Crewdson'' \<rparr> \<and>
   pydantic_parse example_json_loads (ImageToVideoPrompt_validate example_converters)
       example_json_text =
     Some \<lparr> ImageToVideoPrompt.scene_number = 3, ImageToVideoPrompt.characters = [],
            ImageToVideoPrompt.action = ''waves'',
            ImageToVideoPrompt.environment_location = ''train'',
            ImageToVideoPrompt.environment_lighting = ''dim'',
            ImageToVideoPrompt.environment_details = ''fog'',
            ImageToVideoPrompt.style_type = ''Photorealistic CGI'',
            ImageToVideoPrompt.style_technique = ''cel'',
            ImageToVideoPrompt.style_reference = ''Gregory Crewdson'' \<rparr>"
proof -
  have loads: "example_json_loads example_json_text = Some example_json_object"
    by (simp add: example_json_loads_def)
  have keys: "example_json_object ''style_type'' = None"
    "example_json_object ''style_reference'' = None"
    by (simp_all add: example_json_object_def)
  obtain rt where rt: "pydantic_parse example_json_loads
        (TextToImagePrompt_validate example_converters) example_json_text = Some rt"
    and rt_fields: "TextToImagePrompt.scene_number rt = 3" "TextToImagePrompt.characters rt = []"
      "TextToImagePrompt.action rt = ''waves''" "TextToImagePrompt.environment_location rt = ''train''"
      "TextToImagePrompt.environment_lighting rt = ''dim''"
      "TextToImagePrompt.environment_details rt = ''fog''"
      "TextToImagePrompt.style_technique rt = ''cel''" "TextToImagePrompt.more rt = ()"
    by (simp add: pydantic_parse_def loads TextToImagePrompt_validate_def required_field_def
        default_field_def example_json_object_def example_converters_def)
  obtain rv where rv: "pydantic_parse example_json_loads
        (ImageToVideoPrompt_validate example_converters) example_json_text = Some rv"
    and rv_fields: "ImageToVideoPrompt.scene_number rv = 3" "ImageToVideoPrompt.characters rv = []"
      "ImageToVideoPrompt.action rv = ''waves''" "ImageToVideoPrompt.environment_location rv = ''train''"
      "ImageToVideoPrompt.environment_lighting rv = ''dim''"
      "ImageToVideoPrompt.environment_details rv = ''fog''"
      "ImageToVideoPrompt.style_technique rv = ''cel''" "ImageToVideoPrompt.more rv = ()"
    by (simp add: pydantic_parse_def loads ImageToVideoPrompt_validate_def required_field_def
        default_field_def example_json_object_def example_converters_def)
  from style_defaults_after_parsing
    [where json_loads = example_json_loads and c = example_converters
       and response_text = example_json_text and obj = example_json_object and rt = rt and rv = rv]
    rt rv loads keys
  have defaults: "TextToImagePrompt.style_type rt = ''Photorealistic CGI''"
    "TextToImagePrompt.style_reference rt = ''Gregory Crewdson''"
    "ImageToVideoPrompt.style_type rv = ''Photorealistic CGI''"
    "ImageToVideoPrompt.style_reference rv = ''Gregory Crewdson''"
    by simp_all
  have "rt = \<lparr> TextToImagePrompt.scene_number = 3, TextToImagePrompt.characters = [],
            TextToImagePrompt.action = ''waves'',
            TextToImagePrompt.environment_location = ''train'',
            TextToImagePrompt.environment_lighting = ''dim'',
            TextToImagePrompt.environment_details = ''fog'',
            TextToImagePrompt.style_type = ''Photorealistic CGI'',
            TextToImagePrompt.style_technique = ''cel'',
            TextToImagePrompt.style_reference = ''Gregory Crewdson'' \<rparr>"
    using rt_fields defaults by (cases rt) simp
  moreover have "rv = \<lparr> ImageToVideoPrompt.scene_number = 3, ImageToVideoPrompt.characters = [],
            ImageToVideoPrompt.action = ''waves'',
            ImageToVideoPrompt.environment_location = ''train'',
            ImageToVideoPrompt.environment_lighting = ''dim'',
            ImageToVideoPrompt.environment_details = ''fog'',
            ImageToVideoPrompt.style_type = ''Photorealistic CGI'',
            ImageToVideoPrompt.style_technique = ''cel'',
            ImageToVideoPrompt.style_reference = ''Gregory Crewdson'' \<rparr>"
    using rv_fields defaults by (cases rv) simp
  ultimately show ?thesis using rt rv loads keys by simp
qed

text \<open>
  C9. Take two completion capabilities that give the same answers, whatever was sent
  before, to the two prompts of scene \<open>i\<close> (its prompt \<open>P\<close> and its retry prompt \<open>R\<close>) and
  that may differ on every other prompt. If both runs of \<^const>\<open>generate_scenes\<close> on the
  same ad details and scene inputs return, the scene outputs at index \<open>i\<close> are equal.
\<close>

theorem generate_scenes_scene_independent:
  fixes input_scenes :: "Scene list option"
  assumes xs: "xs = (case input_scenes of None \<Rightarrow> [] | Some l \<Rightarrow> l)"
    and i: "1 \<le> i" "i \<le> AdDetails.number_of_scenes ad_details"
    and s: "s = (if i \<le> int (length xs) then xs ! nat (i - 1) else Scene_default)"
    and P: "P = single_scene_prompt (get_format_instructions p) i s ad_details"
    and R: "R = single_scene_retry_prompt P i"
    and same: "\<forall>h h'. model1 h P = model2 h' P \<and> model1 h R = model2 h' R"
    and run1: "generate_scenes model1 p ad_details input_scenes sent1 = (Inr ys1, sent1')"
    and run2: "generate_scenes model2 p ad_details input_scenes sent2 = (Inr ys2, sent2')"
  shows "ys1 ! nat (i - 1) = ys2 ! nat (i - 1)"
proof -
  from i have mem: "i \<in> {1..AdDetails.number_of_scenes ad_details}" by simp
  from generate_scenes_elements [OF xs refl run1] mem
  obtain h1 h1' where
    c1: "generate_single_scene model1 p i s ad_details h1 = (Inr (ys1 ! nat (i - 1)), h1')"
    unfolding s by blast
  from generate_scenes_elements [OF xs refl run2] mem
  obtain h2 h2' where
    c2: "generate_single_scene model2 p i s ad_details h2 = (Inr (ys2 ! nat (i - 1)), h2')"
    unfolding s by blast
  have "fst (generate_single_scene model1 p i s ad_details h1) =
        fst (generate_single_scene model2 p i s ad_details h2)"
    using same unfolding P R by (intro generate_single_scene_agree) auto
  with c1 c2 show ?thesis by simp
qed

text \<open>
  Two stubs that agree on the prompts of scene 1 and differ on the prompt of scene 2: the
  runs return different lists with the same first element.
\<close>

theorem generate_scenes_scene_independent_witness:
  "(\<forall>h h'.
      always_ok h (single_scene_prompt [] 1 scene_with_override example_ad_details) =
      other_after_first_scene h' (single_scene_prompt [] 1 scene_with_override example_ad_details) \<and>
      always_ok h (single_scene_retry_prompt
                     (single_scene_prompt [] 1 scene_with_override example_ad_details) 1) =
      other_after_first_scene h' (single_scene_retry_prompt
                     (single_scene_prompt [] 1 scene_with_override example_ad_details) 1)) \<and>
   fst (generate_scenes always_ok example_scene_parser example_ad_details
          (Some [scene_with_override]) []) =
     Inr [example_scene_output, example_scene_output] \<and>
   fst (generate_scenes other_after_first_scene example_scene_parser example_ad_details
          (Some [scene_with_override]) []) =
     Inr [example_scene_output, example_scene_output\<lparr>SceneOutput.visuals := ''empty platform''\<rparr>] \<and>
   [example_scene_output, example_scene_output] ! nat (1 - 1) =
   [example_scene_output, example_scene_output\<lparr>SceneOutput.visuals := ''empty platform''\<rparr>]
     ! nat (1 - 1)"
proof -
  let ?P = "single_scene_prompt [] 1 scene_with_override example_ad_details"
  let ?R = "single_scene_retry_prompt ?P 1"
  have same: "\<forall>h h'. always_ok h ?P = other_after_first_scene h' ?P \<and>
                      always_ok h ?R = other_after_first_scene h' ?R"
    by (simp add: always_ok_def other_after_first_scene_def)
  have fi: "get_format_instructions example_scene_parser = []"
    by (simp add: example_scene_parser_def)
  have P: "?P = single_scene_prompt (get_format_instructions example_scene_parser) 1
                  scene_with_override example_ad_details"
    by (simp add: fi)
  from generate_scenes_scene_independent
    [where input_scenes = "Some [scene_with_override]" and xs = "[scene_with_override]"
       and i = 1 and ad_details = example_ad_details and s = scene_with_override
       and p = example_scene_parser and P = ?P and R = ?R
       and ?model1.0 = always_ok and ?model2.0 = other_after_first_scene,
     OF _ _ _ _ P refl same example_run_always_ok example_run_other]
  have "[example_scene_output, example_scene_output] ! nat (1 - 1) =
        [example_scene_output, example_scene_output\<lparr>SceneOutput.visuals := ''empty platform''\<rparr>]
          ! nat (1 - 1)"
    by (simp add: example_ad_details_scenes)
  with same example_run_always_ok example_run_other show ?thesis by simp
qed

text \<open>
  C10. For scene output and text-to-image prompt lists of any lengths,
  \<^const>\<open>generate_image_to_video_prompts\<close> gives what it gives on the two lists cut to the
  shorter length; whenever it returns, it returns as many prompts as the shorter list has
  elements; and it returns when the per-scene calls for those pairs succeed, so a
  difference in length raises nothing.
\<close>

theorem img2vid_unequal_lengths_truncate:
  "(\<forall>ys sent'.
      generate_image_to_video_prompts model p scene_outputs txt2img_prompts sent = (Inr ys, sent') \<longrightarrow>
      length ys = min (length scene_outputs) (length txt2img_prompts))
   \<and>
   generate_image_to_video_prompts model p scene_outputs txt2img_prompts sent =
     generate_image_to_video_prompts model p
       (take (min (length scene_outputs) (length txt2img_prompts)) scene_outputs)
       (take (min (length scene_outputs) (length txt2img_prompts)) txt2img_prompts) sent
   \<and>
   ((\<forall>i < min (length scene_outputs) (length txt2img_prompts). \<forall>h. \<exists>r h'.
        generate_single_img2vid_prompt model p (scene_outputs ! i) (txt2img_prompts ! i) h =
          (Inr r, h')) \<longrightarrow>
    (\<exists>ys sent'.
        generate_image_to_video_prompts model p scene_outputs txt2img_prompts sent = (Inr ys, sent')))"
proof -
  let ?zs = "zip scene_outputs txt2img_prompts"
  let ?m = "min (length scene_outputs) (length txt2img_prompts)"
  have A: "length ys = ?m"
    if "generate_image_to_video_prompts model p scene_outputs txt2img_prompts sent = (Inr ys, sent')"
    for ys sent'
  proof -
    from that have "generate_image_to_video_prompts_loop model p ?zs [] sent = (Inr ys, sent')"
      by (simp add: generate_image_to_video_prompts_def)
    from img2vid_loop_result [OF this] show ?thesis by simp
  qed
  have "zip (take ?m scene_outputs) (take ?m txt2img_prompts) = take ?m ?zs"
    by (simp add: take_zip)
  also have "\<dots> = ?zs" by simp
  finally have T: "generate_image_to_video_prompts model p scene_outputs txt2img_prompts sent =
     generate_image_to_video_prompts model p (take ?m scene_outputs) (take ?m txt2img_prompts) sent"
    by (simp add: generate_image_to_video_prompts_def)
  have B: "\<exists>ys sent'.
          generate_image_to_video_prompts model p scene_outputs txt2img_prompts sent = (Inr ys, sent')"
    if ok: "\<forall>i < ?m. \<forall>h. \<exists>r h'.
          generate_single_img2vid_prompt model p (scene_outputs ! i) (txt2img_prompts ! i) h =
            (Inr r, h')"
  proof -
    have "\<forall>(scene, t) \<in> set ?zs. \<forall>h. \<exists>r h'.
             generate_single_img2vid_prompt model p scene t h = (Inr r, h')"
      using ok by (auto simp: set_zip)
    from img2vid_loop_success [OF this]
    show ?thesis by (simp add: generate_image_to_video_prompts_def)
  qed
  from A T B show ?thesis by blast
qed

text \<open>
  Two scene outputs and one text-to-image prompt: one image-to-video prompt is returned,
  for the first scene, and one prompt was sent.
\<close>

theorem img2vid_unequal_lengths_truncate_witness:
  "generate_image_to_video_prompts always_ok example_img2vid_parser
      [example_scene_output, example_scene_output\<lparr>SceneOutput.scene_number := 2\<rparr>]
      [example_txt2img_prompt] [] =
     (Inr [example_img2vid_prompt\<lparr>ImageToVideoPrompt.scene_number := 7\<rparr>],
      [single_img2vid_prompt [] example_scene_output example_txt2img_prompt]) \<and>
   length [example_img2vid_prompt\<lparr>ImageToVideoPrompt.scene_number := 7\<rparr>] =
     min (length [example_scene_output, example_scene_output\<lparr>SceneOutput.scene_number := 2\<rparr>])
         (length [example_txt2img_prompt]) \<and>
   generate_image_to_video_prompts always_ok example_img2vid_parser
      [example_scene_output, example_scene_output\<lparr>SceneOutput.scene_number := 2\<rparr>]
      [example_txt2img_prompt] [] =
   generate_image_to_video_prompts always_ok example_img2vid_parser
      [example_scene_output] [example_txt2img_prompt] []"
proof -
  let ?scenes = "[example_scene_output, example_scene_output\<lparr>SceneOutput.scene_number := 2\<rparr>]"
  have number: "SceneOutput.scene_number example_scene_output = 7"
    by (simp add: example_scene_output_def)
  have run: "generate_image_to_video_prompts always_ok example_img2vid_parser ?scenes
      [example_txt2img_prompt] [] =
     (Inr [example_img2vid_prompt\<lparr>ImageToVideoPrompt.scene_number := 7\<rparr>],
      [single_img2vid_prompt [] example_scene_output example_txt2img_prompt])"
    by (simp add: generate_image_to_video_prompts_def always_ok_img2vid number)
  from img2vid_unequal_lengths_truncate
    [where model = always_ok and p = example_img2vid_parser and scene_outputs = ?scenes
       and txt2img_prompts = "[example_txt2img_prompt]" and sent = "[]"] run
  show ?thesis by simp
qed

end
